theory Spec2Isabelle
  imports Complex_Main "HOL-Library.Sublist"
begin

section \<open>JavaScript values\<close>

text \<open>
  Identifiers of keys and revisions are UUID strings; an unset column or property
  (\<^verbatim>\<open>null\<close>, \<^verbatim>\<open>undefined\<close>) is \<open>None\<close>. A JavaScript condition on such a
  value is its truthiness: \<^verbatim>\<open>undefined\<close>, \<^verbatim>\<open>null\<close> and the empty string are falsy.
\<close>

type_synonym uuid = string

definition truthy :: "string option \<Rightarrow> bool" where
  "truthy v = (case v of None \<Rightarrow> False | Some s \<Rightarrow> s \<noteq> [])"

text \<open>The truthiness of an optional number: \<^verbatim>\<open>undefined\<close> and \<^verbatim>\<open>0\<close> are falsy.\<close>

definition truthyNum :: "int option \<Rightarrow> bool" where
  "truthyNum v = (case v of None \<Rightarrow> False | Some n \<Rightarrow> n \<noteq> 0)"

text \<open>
  A value that is a number or a string, where the source has both: media ids are numbers
  in some lists and strings in others (\<^verbatim>\<open>arr.push(media.id)\<close> for a taxon,
  \<^verbatim>\<open>arr.push(`${media.id}`)\<close> for a state), and a \<^verbatim>\<open>parentId\<close> of a request
  body is a number or a numeric string. Numbers are integers or \<^verbatim>\<open>NaN\<close>.
\<close>

datatype jsval = JNum int | JStr string | JNaN

fun string_of_nat :: "nat \<Rightarrow> string" where
  "string_of_nat n =
     (if n < 10 then [''0123456789'' ! n]
      else string_of_nat (n div 10) @ [''0123456789'' ! (n mod 10)])"

declare string_of_nat.simps [simp del]

definition string_of_int :: "int \<Rightarrow> string" where
  "string_of_int k = (if k < 0 then CHR ''-'' # string_of_nat (nat (- k)) else string_of_nat (nat k))"

text \<open>The template literal \<^verbatim>\<open>`${v}`\<close>.\<close>

fun toString :: "jsval \<Rightarrow> string" where
  "toString (JNum k) = string_of_int k"
| "toString (JStr s) = s"
| "toString JNaN = ''NaN''"

text \<open>
  \<^verbatim>\<open>parseInt(v, 10)\<close>: an optional sign and the longest prefix of decimal digits, after
  leading blanks; \<open>JNaN\<close> when there is no digit.
\<close>

fun parseDigits :: "string \<Rightarrow> nat option \<Rightarrow> nat option" where
  "parseDigits [] acc = acc"
| "parseDigits (c # cs) acc =
     (case map_of (zip ''0123456789'' [0 ..< 10]) c of
        None \<Rightarrow> acc
      | Some d \<Rightarrow> parseDigits cs (Some (10 * (case acc of None \<Rightarrow> 0 | Some a \<Rightarrow> a) + d)))"

definition parseSigned :: "string \<Rightarrow> jsval" where
  "parseSigned s =
     (let (negative, ds) = (case s of
                              c # r \<Rightarrow> if c = CHR ''-'' then (True, r)
                                       else if c = CHR ''+'' then (False, r) else (False, s)
                            | [] \<Rightarrow> (False, s))
      in case parseDigits ds None of
           None \<Rightarrow> JNaN
         | Some n \<Rightarrow> JNum (if negative then - int n else int n))"

fun parseInt :: "jsval \<Rightarrow> jsval" where
  "parseInt (JNum k) = JNum k"
| "parseInt (JStr s) = parseSigned (dropWhile (\<lambda>c. c = CHR '' '') s)"
| "parseInt JNaN = JNaN"

text \<open>The truthiness of a number or string: \<^verbatim>\<open>0\<close>, \<^verbatim>\<open>NaN\<close> and \<^verbatim>\<open>''\<close> are falsy.\<close>

fun truthyVal :: "jsval \<Rightarrow> bool" where
  "truthyVal (JNum k) = (k \<noteq> 0)"
| "truthyVal (JStr s) = (s \<noteq> [])"
| "truthyVal JNaN = False"

text \<open>\<^verbatim>\<open>arr.findIndex(pred)\<close>; \<open>None\<close> is the result \<^verbatim>\<open>-1\<close>.\<close>

fun findIndex :: "('a \<Rightarrow> bool) \<Rightarrow> 'a list \<Rightarrow> nat option" where
  "findIndex P [] = None"
| "findIndex P (x # xs) = (if P x then Some 0 else map_option Suc (findIndex P xs))"

text \<open>
  \<^verbatim>\<open>arr.splice(idx, 1)\<close>: with \<^verbatim>\<open>idx = -1\<close> the start is the last index, so the last
  element goes. \<open>spliced\<close> is the index that was removed, if any.
\<close>

definition splice1 :: "'a list \<Rightarrow> nat option \<Rightarrow> 'a list" where
  "splice1 xs idx = (case idx of Some j \<Rightarrow> take j xs @ drop (Suc j) xs | None \<Rightarrow> butlast xs)"

definition spliced :: "'a list \<Rightarrow> nat option \<Rightarrow> nat option" where
  "spliced xs idx =
     (case idx of Some j \<Rightarrow> Some j | None \<Rightarrow> if xs = [] then None else Some (length xs - 1))"

section \<open>Revision lifecycle: createRevision, findRevisionForKey, the status route\<close>

datatype revisionStatus = DRAFT | REVIEW | ACCEPTED

text \<open>
  The rows of the relational store. The content and media documents of a revision are
  opaque to the revision lifecycle, so the row is polymorphic in them.
\<close>

record key =
  key_id :: uuid
  key_revisionId :: "uuid option"

record ('c, 'm) revision =
  rev_id :: uuid
  rev_content :: 'c
  rev_media :: 'm
  rev_note :: "string option"
  rev_createdBy :: string
  rev_status :: revisionStatus
  rev_mode :: int

record keyRevision =
  kr_keyId :: uuid
  kr_revisionId :: uuid

record taxonRow =
  taxonRow_id :: int
  taxonRow_keyId :: uuid

record ('c, 'm) database =
  keyTable :: "key list"
  revisionTable :: "('c, 'm) revision list"
  revisionsTable :: "keyRevision list"
  taxonTable :: "taxonRow list"

datatype error = UniqueConstraintError | Error | TypeError | CircularStructure

text \<open>\<^verbatim>\<open>Model.findByPk(id)\<close>: the row with that primary key, if any.\<close>

definition Key_findByPk :: "('c, 'm) database \<Rightarrow> uuid \<Rightarrow> key option" where
  "Key_findByPk db kid = find (\<lambda>k. key_id k = kid) (keyTable db)"

definition Revision_findByPk :: "('c, 'm) database \<Rightarrow> uuid \<Rightarrow> ('c, 'm) revision option" where
  "Revision_findByPk db rid = find (\<lambda>r. rev_id r = rid) (revisionTable db)"

text \<open>\<^verbatim>\<open>Revisions.findOne({ where: { revisionId, keyId } })\<close>\<close>

definition Revisions_findOne :: "('c, 'm) database \<Rightarrow> uuid \<Rightarrow> uuid \<Rightarrow> keyRevision option" where
  "Revisions_findOne db rid kid =
     find (\<lambda>kr. kr_revisionId kr = rid \<and> kr_keyId kr = kid) (revisionsTable db)"

text \<open>
  \<^verbatim>\<open>Revision.create\<close>: the store generates the primary key; the generated value is the
  argument \<open>newId\<close>. A primary key that is already in the table is refused by the store.
\<close>

definition Revision_create ::
  "('c, 'm) revision \<Rightarrow> ('c, 'm) database \<Rightarrow> error + ('c, 'm) database" where
  "Revision_create row db =
     (if rev_id row \<in> rev_id ` set (revisionTable db) then Inl UniqueConstraintError
      else Inr (db\<lparr>revisionTable := revisionTable db @ [row]\<rparr>))"

text \<open>\<^verbatim>\<open>Revision.update({ status }, { where: { id } })\<close>\<close>

definition Revision_updateStatus ::
  "revisionStatus \<Rightarrow> uuid \<Rightarrow> ('c, 'm) database \<Rightarrow> ('c, 'm) database" where
  "Revision_updateStatus st rid db =
     db\<lparr>revisionTable :=
          map (\<lambda>r. if rev_id r = rid then r\<lparr>rev_status := st\<rparr> else r) (revisionTable db)\<rparr>"

text \<open>\<^verbatim>\<open>key.update({ revisionId })\<close>: the row of the instance, by its primary key.\<close>

definition Key_updateRevisionId ::
  "uuid \<Rightarrow> uuid \<Rightarrow> ('c, 'm) database \<Rightarrow> ('c, 'm) database" where
  "Key_updateRevisionId kid rid db =
     db\<lparr>keyTable :=
          map (\<lambda>k. if key_id k = kid then k\<lparr>key_revisionId := Some rid\<rparr> else k) (keyTable db)\<rparr>"

text \<open>
  \<^verbatim>\<open>createRevision(key, content, media, createdBy, note, mode)\<close>. The result is the
  returned revision id, the key instance (which \<^verbatim>\<open>key.update\<close> also changes) and the
  store. \<open>defaultKeyMode\<close> is \<^verbatim>\<open>parseInt(process.env.DEFAULT_KEY_MODE, 10)\<close>. The source
  has an older \<^verbatim>\<open>createRevision\<close> as well, without \<^verbatim>\<open>mode\<close> and otherwise with the same
  body.
\<close>

definition createRevision ::
  "int \<Rightarrow> uuid \<Rightarrow> key \<Rightarrow> 'c \<Rightarrow> 'm \<Rightarrow> string \<Rightarrow> string option \<Rightarrow> int option
     \<Rightarrow> ('c, 'm) database \<Rightarrow> error + (uuid \<times> key \<times> ('c, 'm) database)" where
  "createRevision defaultKeyMode newId k content media createdBy note mode db =
     (let revision = \<lparr>rev_id = newId, rev_content = content, rev_media = media,
                       rev_note = note, rev_createdBy = createdBy, rev_status = DRAFT,
                       rev_mode = (if truthyNum mode then the mode else defaultKeyMode)\<rparr>
      in case Revision_create revision db of
           Inl e \<Rightarrow> Inl e
         | Inr db1 \<Rightarrow>
             let keyRevision = \<lparr>kr_keyId = key_id k, kr_revisionId = rev_id revision\<rparr>;
                 db2 = db1\<lparr>revisionsTable := revisionsTable db1 @ [keyRevision]\<rparr>
             in if \<not> truthy (key_revisionId k)
                then Inr (kr_revisionId keyRevision,
                          k\<lparr>key_revisionId := Some (rev_id revision)\<rparr>,
                          Key_updateRevisionId (key_id k) (rev_id revision)
                            (Revision_updateStatus ACCEPTED (rev_id revision) db2))
                else Inr (kr_revisionId keyRevision, k, db2))"

text \<open>
  \<^verbatim>\<open>findRevisionForKey(revisionId, keyId)\<close>: throws unless the join row and the revision
  exist; the key may be \<^verbatim>\<open>null\<close>.
\<close>

definition findRevisionForKey ::
  "uuid \<Rightarrow> uuid \<Rightarrow> ('c, 'm) database \<Rightarrow> error + (('c, 'm) revision \<times> key option)" where
  "findRevisionForKey revisionId keyId db =
     (case Revisions_findOne db revisionId keyId of
        None \<Rightarrow> Inl Error
      | Some keyRevision \<Rightarrow>
          (case Revision_findByPk db revisionId of
             None \<Rightarrow> Inl Error
           | Some revision \<Rightarrow> Inr (revision, Key_findByPk db keyId)))"

text \<open>
  \<^verbatim>\<open>router.put('/status/:revisionId')\<close>, after validation and authorisation: the HTTP
  status code and the store afterwards. The validator admits exactly the three statuses.
\<close>

definition putStatus ::
  "uuid \<Rightarrow> uuid \<Rightarrow> revisionStatus \<Rightarrow> ('c, 'm) database \<Rightarrow> nat \<times> ('c, 'm) database" where
  "putStatus revisionId keyId st db =
     (case findRevisionForKey revisionId keyId db of
        Inl e \<Rightarrow> (500, db)
      | Inr (revision, None) \<Rightarrow> (409, db)
      | Inr (revision, Some k) \<Rightarrow>
          if key_revisionId k \<noteq> Some revisionId
          then (200, Revision_updateStatus st revisionId db)
          else (409, db))"

section \<open>Character premises: removeStatePremises, checkMinMaxValues\<close>

text \<open>
  A logical premise is an array of entries; an entry that is an array is a disjunction of
  clauses \<^verbatim>\<open>{ characterId, stateId }\<close>. The source tests \<^verbatim>\<open>Array.isArray\<close> at both
  levels, so both levels have a non-array alternative: \<open>NonArray len\<close> is an entry that is
  not an array, with the value of its \<^verbatim>\<open>length\<close> property when that is a number (a
  string's length) and \<open>None\<close> when it is \<^verbatim>\<open>undefined\<close>. The entries are values of
  which \<^verbatim>\<open>length\<close> can be read, and the clauses are objects with the two ids as strings.
\<close>

record premiseClause =
  characterId :: string
  stateId :: string

datatype subElement = Disjunction "premiseClause list" | NonArray "nat option"

datatype premise = PremiseArray "subElement list" | PremiseNonArray

text \<open>
  Of a character only \<^verbatim>\<open>id\<close> and \<^verbatim>\<open>logicalPremise\<close> matter here; title, description,
  type, states and media are the extension of the record, which no function below reads
  or writes.
\<close>

record character =
  char_id :: string
  logicalPremise :: "premise option"

text \<open>\<^verbatim>\<open>subElement.length > 1\<close>; a comparison with \<^verbatim>\<open>undefined\<close> is false.\<close>

fun lengthGreaterOne :: "subElement \<Rightarrow> bool" where
  "lengthGreaterOne (Disjunction d) = (length d > 1)"
| "lengthGreaterOne (NonArray None) = False"
| "lengthGreaterOne (NonArray (Some n)) = (n > 1)"

text \<open>
  \<^verbatim>\<open>removeStatePremises(id, chars)\<close>. The source copies the array and changes the
  characters in place; the returned array holds the changed characters.
\<close>

definition removeStatePremises ::
  "string \<Rightarrow> 'a character_scheme list \<Rightarrow> 'a character_scheme list" where
  "removeStatePremises i chars =
     map (\<lambda>element.
       case logicalPremise element of
         Some (PremiseArray subs) \<Rightarrow>
           let mapped = map (\<lambda>subElement.
                              case subElement of
                                Disjunction d \<Rightarrow> Disjunction (filter (\<lambda>el. stateId el \<noteq> i) d)
                              | NonArray n \<Rightarrow> NonArray n) subs;
               filtered = filter lengthGreaterOne mapped
           in if length filtered = 1 then element\<lparr>logicalPremise := None\<rparr>
              else element\<lparr>logicalPremise := Some (PremiseArray filtered)\<rparr>
       | _ \<Rightarrow> element) chars"

text \<open>\<^verbatim>\<open>removeCharacterPremises(id, chars)\<close>: the same by \<^verbatim>\<open>characterId\<close>, without the reset.\<close>

definition removeCharacterPremises ::
  "string \<Rightarrow> 'a character_scheme list \<Rightarrow> 'a character_scheme list" where
  "removeCharacterPremises i chars =
     map (\<lambda>element.
       case logicalPremise element of
         Some (PremiseArray subs) \<Rightarrow>
           let mapped = map (\<lambda>subElement.
                              case subElement of
                                Disjunction d \<Rightarrow> Disjunction (filter (\<lambda>el. characterId el \<noteq> i) d)
                              | NonArray n \<Rightarrow> NonArray n) subs;
               filtered = filter lengthGreaterOne mapped
           in element\<lparr>logicalPremise := Some (PremiseArray filtered)\<rparr>
       | _ \<Rightarrow> element) chars"

text \<open>
  The state object of a numerical character. \<^verbatim>\<open>min\<close>, \<^verbatim>\<open>max\<close> and \<^verbatim>\<open>stepSize\<close>
  of the new values are \<^verbatim>\<open>req.body.min\<close>, \<^verbatim>\<open>req.body.max\<close> and
  \<^verbatim>\<open>req.body.stepSize\<close> as submitted: the validator \<^verbatim>\<open>isFloat\<close> admits a number and
  a numeric string and converts neither. The existing values were stored the same way.
  So each is a number or a string. The numbers are only compared, never computed with,
  and are real numbers.
\<close>

datatype numval = NumV real | StrV string

record numericalState =
  ns_id :: string
  ns_min :: numval
  ns_max :: numval
  ns_stepSize :: numval

text \<open>
  \<^verbatim>\<open>a !== b\<close>: values of different types are never equal; numbers are compared as
  numbers and strings as strings.
\<close>

fun strictNotEqual :: "numval \<Rightarrow> numval \<Rightarrow> bool" where
  "strictNotEqual (NumV a) (NumV b) = (a \<noteq> b)"
| "strictNotEqual (StrV s) (StrV t) = (s \<noteq> t)"
| "strictNotEqual (NumV a) (StrV t) = True"
| "strictNotEqual (StrV s) (NumV b) = True"

text \<open>The order of two strings: by the first code unit in which they differ.\<close>

fun stringLess :: "string \<Rightarrow> string \<Rightarrow> bool" where
  "stringLess [] [] = False"
| "stringLess [] (y # ys) = True"
| "stringLess (x # xs) [] = False"
| "stringLess (x # xs) (y # ys) =
     ((of_char x :: nat) < of_char y \<or> (x = y \<and> stringLess xs ys))"

text \<open>
  \<^verbatim>\<open>a < b\<close>: two strings are compared as strings; otherwise both operands are converted
  to numbers and compared, and the result is false when a conversion gives \<^verbatim>\<open>NaN\<close>.
  \<open>toNumber\<close> is the conversion of a string to a number that the language defines, with
  \<open>None\<close> for \<^verbatim>\<open>NaN\<close>; the functions below take it as an argument.
\<close>

fun asNumber :: "(string \<Rightarrow> real option) \<Rightarrow> numval \<Rightarrow> real option" where
  "asNumber toNumber (NumV a) = Some a"
| "asNumber toNumber (StrV s) = toNumber s"

fun lessThan_js :: "(string \<Rightarrow> real option) \<Rightarrow> numval \<Rightarrow> numval \<Rightarrow> bool" where
  "lessThan_js toNumber (StrV s) (StrV t) = stringLess s t"
| "lessThan_js toNumber a b =
     (case (asNumber toNumber a, asNumber toNumber b) of
        (Some x, Some y) \<Rightarrow> x < y
      | _ \<Rightarrow> False)"

text \<open>\<^verbatim>\<open>a > b\<close> is \<^verbatim>\<open>b < a\<close> with the operands evaluated in the order written.\<close>

definition greaterThan_js :: "(string \<Rightarrow> real option) \<Rightarrow> numval \<Rightarrow> numval \<Rightarrow> bool" where
  "greaterThan_js toNumber a b = lessThan_js toNumber b a"

text \<open>\<^verbatim>\<open>checkMinMaxValues(id, newValues, existingValues, characters)\<close>\<close>

definition checkMinMaxValues ::
  "(string \<Rightarrow> real option) \<Rightarrow> string \<Rightarrow> 'b numericalState_scheme \<Rightarrow> 'c numericalState_scheme
     \<Rightarrow> 'a character_scheme list \<Rightarrow> 'a character_scheme list" where
  "checkMinMaxValues toNumber i newValues existingValues characters =
     (if strictNotEqual (ns_stepSize existingValues) (ns_stepSize newValues)
         \<or> lessThan_js toNumber (ns_min existingValues) (ns_min newValues)
         \<or> greaterThan_js toNumber (ns_max existingValues) (ns_max newValues)
      then removeCharacterPremises i characters
      else characters)"

text \<open>
  The words of the specification for the two prunings: the entries of a premise after the
  clauses that satisfy \<open>hit\<close> are taken out of every disjunction and the entries of
  length at most one are dropped.
\<close>

definition withoutClauses :: "(premiseClause \<Rightarrow> bool) \<Rightarrow> subElement \<Rightarrow> subElement" where
  "withoutClauses hit s =
     (case s of Disjunction d \<Rightarrow> Disjunction [el \<leftarrow> d. \<not> hit el] | NonArray n \<Rightarrow> NonArray n)"

definition prunedEntries :: "(premiseClause \<Rightarrow> bool) \<Rightarrow> subElement list \<Rightarrow> subElement list" where
  "prunedEntries hit subs =
     concat (map (\<lambda>s. if lengthGreaterOne (withoutClauses hit s)
                       then [withoutClauses hit s] else []) subs)"

text \<open>The clauses that occur in the array-valued premises of a list of characters.\<close>

definition clausesOf :: "'a character_scheme \<Rightarrow> premiseClause set" where
  "clausesOf c =
     (case logicalPremise c of
        Some (PremiseArray subs) \<Rightarrow> {el. \<exists>d. Disjunction d \<in> set subs \<and> el \<in> set d}
      | _ \<Rightarrow> {})"

section \<open>Media of an entity: removeEntityMedia\<close>

text \<open>
  An entity is a taxon, a character or a state; \<^verbatim>\<open>removeEntityMedia\<close> reads and writes
  only its \<^verbatim>\<open>media\<close> property, the other properties are the extension of the record.
\<close>

record entity =
  media :: "jsval list option"

record mediaElement =
  me_id :: jsval
  me_license :: "string option"
  me_creators :: "string list option"

record person =
  person_id :: string
  person_name :: string

record revisionMedia =
  mediaElements :: "mediaElement list option"
  persons :: "person list option"

text \<open>
  \<^verbatim>\<open>removeEntityMedia(entity, media, body)\<close>, with \<open>bodyMedia\<close> for \<^verbatim>\<open>body.media\<close>.
  \<^verbatim>\<open>entity.media.forEach\<close> raises a TypeError when \<^verbatim>\<open>entity.media\<close> is undefined.
  \<^verbatim>\<open>includes\<close> compares without conversion, so a string never equals a number.
\<close>

definition removeEntityMedia ::
  "'a entity_scheme \<Rightarrow> 'b revisionMedia_scheme \<Rightarrow> jsval list
     \<Rightarrow> error + ('a entity_scheme \<times> 'b revisionMedia_scheme)" where
  "removeEntityMedia ent med bodyMedia =
     (case media ent of
        None \<Rightarrow> Inl TypeError
      | Some ms \<Rightarrow>
          let arr = [JStr (toString element). element \<leftarrow> ms,
                       JStr (toString element) \<notin> set bodyMedia];
              elements = (case mediaElements med of
                            Some es \<Rightarrow> [element. element \<leftarrow> es,
                                          JStr (toString (me_id element)) \<notin> set bodyMedia]
                          | None \<Rightarrow> [])
          in Inr (ent\<lparr>media := Some arr\<rparr>, med\<lparr>mediaElements := Some elements\<rparr>))"

section \<open>Deleting a media file: deleteMediaFile, deleteMedia\<close>

text \<open>
  The file system as far as \<^verbatim>\<open>fs.unlink\<close> sees it: a path has no file (the error
  \<^verbatim>\<open>ENOENT\<close>), a file that can be removed, or a file whose removal fails with another
  error.
\<close>

datatype fsError = ENOENT | EOTHER

datatype fileState = Removable | Unremovable

type_synonym fileSystem = "(string \<times> fileState) list"

definition unlink :: "fileSystem \<Rightarrow> string \<Rightarrow> fsError option \<times> fileSystem" where
  "unlink fs path =
     (case map_of fs path of
        None \<Rightarrow> (Some ENOENT, fs)
      | Some Unremovable \<Rightarrow> (Some EOTHER, fs)
      | Some Removable \<Rightarrow> (None, filter (\<lambda>(p, s). p \<noteq> path) fs))"

record mediaRow =
  media_id :: int
  filePath :: "string option"
  thumbnailPath :: "string option"

record mediaInfoRow =
  mi_id :: int
  mi_mediaId :: int

record mediaStore =
  files :: fileSystem
  mediaTable :: "mediaRow list"
  mediaInfoTable :: "mediaInfoRow list"

datatype deleteError = FsError fsError | NullMedia

text \<open>
  One of the two promises of \<^verbatim>\<open>deleteMediaFile\<close>: the callback of \<^verbatim>\<open>fs.unlink\<close>
  rejects on \<^verbatim>\<open>ENOENT\<close>, rejects on any other error, and resolves otherwise.
\<close>

definition unlinkPromise :: "fileSystem \<Rightarrow> string \<Rightarrow> (fsError + unit) \<times> fileSystem" where
  "unlinkPromise fs path =
     (case unlink fs path of
        (Some ENOENT, fs') \<Rightarrow> (Inl ENOENT, fs')
      | (Some err, fs') \<Rightarrow> (Inl err, fs')
      | (None, fs') \<Rightarrow> (Inr (), fs'))"

text \<open>
  \<^verbatim>\<open>deleteMediaFile(media)\<close>: both unlinks are started before either result is looked
  at; the rows are destroyed only when \<^verbatim>\<open>Promise.all\<close> resolves. The result is the
  rejection (of the first promise in the array that rejected) or \<open>Inr ()\<close>.
\<close>

definition deleteMediaFile :: "mediaRow \<Rightarrow> mediaStore \<Rightarrow> (deleteError + unit) \<times> mediaStore" where
  "deleteMediaFile m st =
     (let (r1, fs1) = (if truthy (filePath m) then unlinkPromise (files st) (the (filePath m))
                       else (Inr (), files st));
          (r2, fs2) = (if truthy (thumbnailPath m) then unlinkPromise fs1 (the (thumbnailPath m))
                       else (Inr (), fs1));
          st' = st\<lparr>files := fs2\<rparr>
      in case (r1, r2) of
           (Inl e, _) \<Rightarrow> (Inl (FsError e), st')
         | (Inr _, Inl e) \<Rightarrow> (Inl (FsError e), st')
         | (Inr _, Inr _) \<Rightarrow>
             (Inr (), st'\<lparr>mediaInfoTable := filter (\<lambda>r. mi_mediaId r \<noteq> media_id m) (mediaInfoTable st'),
                          mediaTable := filter (\<lambda>r. media_id r \<noteq> media_id m) (mediaTable st')\<rparr>))"

text \<open>\<^verbatim>\<open>deleteMedia(id)\<close>; reading \<^verbatim>\<open>media.filePath\<close> of \<^verbatim>\<open>null\<close> rejects.\<close>

definition deleteMedia :: "int \<Rightarrow> mediaStore \<Rightarrow> (deleteError + unit) \<times> mediaStore" where
  "deleteMedia i st =
     (case find (\<lambda>r. media_id r = i) (mediaTable st) of
        None \<Rightarrow> (Inl NullMedia, st)
      | Some m \<Rightarrow> deleteMediaFile m st)"

section \<open>The taxon tree: utils/taxon.js\<close>

text \<open>
  The content document of a revision is read from the store as JSON, so the taxa of a
  request form a tree without sharing: a node is its own properties and, when the
  \<^verbatim>\<open>children\<close> property is present, the array of its children. \<^verbatim>\<open>parentId\<close> is the
  transient property that \<^verbatim>\<open>findTaxonById\<close> writes when asked to. The media list of
  a node is not touched by any function of this section and is left out.
\<close>

record langText =
  text_no :: "string option"
  text_en :: "string option"

record taxonProps =
  taxon_id :: string
  scientificName :: string
  vernacularName :: "langText option"
  description :: "langText option"
  taxon_parentId :: "string option"

datatype taxon = Taxon (props: taxonProps) (children: "taxon list option")

text \<open>
  A JavaScript reference to a node of the tree is the path of array indices that leads
  to it from the top-level array; the functions that return a node return its path and
  the node found there.
\<close>

type_synonym ref = "nat list"

fun nodeAt :: "taxon list \<Rightarrow> ref \<Rightarrow> taxon option" where
  "nodeAt arr [] = None"
| "nodeAt arr [k] = (if k < length arr then Some (arr ! k) else None)"
| "nodeAt arr (k # p) =
     (if k < length arr
      then (case children (arr ! k) of Some ch \<Rightarrow> nodeAt ch p | None \<Rightarrow> None)
      else None)"

text \<open>An assignment through a reference: the node at the path is replaced by its image.\<close>

fun updateAt :: "taxon list \<Rightarrow> ref \<Rightarrow> (taxon \<Rightarrow> taxon) \<Rightarrow> taxon list" where
  "updateAt arr [] f = arr"
| "updateAt arr [k] f = (if k < length arr then arr[k := f (arr ! k)] else arr)"
| "updateAt arr (k # p) f =
     (if k < length arr
      then (case children (arr ! k) of
              Some ch \<Rightarrow> arr[k := Taxon (props (arr ! k)) (Some (updateAt ch p f))]
            | None \<Rightarrow> arr)
      else arr)"

lemma size_children [termination_simp]:
  "children element = Some ch \<Longrightarrow> size_list size ch < size element"
  by (cases element) simp

text \<open>
  \<^verbatim>\<open>findTaxonById(arr, id)\<close> without the third argument: the body of the
  \<^verbatim>\<open>forEach\<close> with the variable \<^verbatim>\<open>taxon\<close> as accumulator and the index \<open>k\<close> of the
  element. The loop does not stop at a match, so a later match replaces an earlier one.
\<close>

fun findTaxonById_forEach ::
  "taxon list \<Rightarrow> string \<Rightarrow> nat \<Rightarrow> (ref \<times> taxon) option \<Rightarrow> (ref \<times> taxon) option" where
  "findTaxonById_forEach [] i k taxon = taxon"
| "findTaxonById_forEach (element # rest) i k taxon =
     findTaxonById_forEach rest i (Suc k)
       (if taxon_id (props element) = i then Some ([k], element)
        else case children element of
               Some ch \<Rightarrow>
                 (case findTaxonById_forEach ch i 0 None of
                    Some (p, tmp) \<Rightarrow> Some (k # p, tmp)
                  | None \<Rightarrow> taxon)
             | None \<Rightarrow> taxon)"

definition findTaxonById :: "taxon list \<Rightarrow> string \<Rightarrow> (ref \<times> taxon) option" where
  "findTaxonById arr i = findTaxonById_forEach arr i 0 None"

definition set_parentId :: "string option \<Rightarrow> taxon \<Rightarrow> taxon" where
  "set_parentId v t = Taxon ((props t)\<lparr>taxon_parentId := v\<rparr>) (children t)"

text \<open>
  \<^verbatim>\<open>findTaxonById(arr, id, true)\<close>. The recursive call of the source passes no third
  argument, so every nested call is \<open>findTaxonById\<close> above and only the outermost loop
  writes \<^verbatim>\<open>taxon.parentId = element.id\<close>, with \<^verbatim>\<open>element\<close> the top-level element
  under which the node was found. The write changes the node inside the tree, so the
  result is the array after the loop together with the reference.
\<close>

fun findTaxonById_include_forEach ::
  "taxon list \<Rightarrow> string \<Rightarrow> nat \<Rightarrow> (ref \<times> taxon) option
     \<Rightarrow> taxon list \<times> (ref \<times> taxon) option" where
  "findTaxonById_include_forEach [] i k taxon = ([], taxon)"
| "findTaxonById_include_forEach (element # rest) i k taxon =
     (if taxon_id (props element) = i
      then (let (rest', r) = findTaxonById_include_forEach rest i (Suc k) (Some ([k], element))
            in (element # rest', r))
      else case children element of
             Some ch \<Rightarrow>
               (case findTaxonById ch i of
                  Some (p, tmp) \<Rightarrow>
                    (let tmp' = set_parentId (Some (taxon_id (props element))) tmp;
                         element' = Taxon (props element) (Some (updateAt ch p (\<lambda>_. tmp')));
                         (rest', r) = findTaxonById_include_forEach rest i (Suc k) (Some (k # p, tmp'))
                     in (element' # rest', r))
                | None \<Rightarrow>
                    (let (rest', r) = findTaxonById_include_forEach rest i (Suc k) taxon
                     in (element # rest', r)))
           | None \<Rightarrow>
               (let (rest', r) = findTaxonById_include_forEach rest i (Suc k) taxon
                in (element # rest', r)))"

definition findTaxonById_include ::
  "taxon list \<Rightarrow> string \<Rightarrow> taxon list \<times> (ref \<times> taxon) option" where
  "findTaxonById_include arr i = findTaxonById_include_forEach arr i 0 None"

text \<open>
  \<^verbatim>\<open>toUpperCase\<close> on the letters a to z; scientific names are taken to be ASCII strings.
\<close>

definition toUpperCase :: "string \<Rightarrow> string" where
  "toUpperCase s =
     map (\<lambda>c. case map_of (zip ''abcdefghijklmnopqrstuvwxyz'' ''ABCDEFGHIJKLMNOPQRSTUVWXYZ'') c of
                 Some u \<Rightarrow> u
               | None \<Rightarrow> c) s"

text \<open>
  \<^verbatim>\<open>findTaxonByName(arr, name, ignoreId)\<close>: the loop, then the test of \<^verbatim>\<open>ignoreId\<close>.
  The nested calls pass no \<^verbatim>\<open>ignoreId\<close>, so for them the test does nothing.
\<close>

fun findTaxonByName_forEach :: "taxon list \<Rightarrow> string \<Rightarrow> taxon option \<Rightarrow> taxon option" where
  "findTaxonByName_forEach [] name taxon = taxon"
| "findTaxonByName_forEach (element # rest) name taxon =
     findTaxonByName_forEach rest name
       (if toUpperCase (scientificName (props element)) = toUpperCase name then Some element
        else case children element of
               Some ch \<Rightarrow>
                 (case findTaxonByName_forEach ch name None of
                    Some tmp \<Rightarrow> Some tmp
                  | None \<Rightarrow> taxon)
             | None \<Rightarrow> taxon)"

definition findTaxonByName :: "taxon list \<Rightarrow> string \<Rightarrow> string option \<Rightarrow> taxon option" where
  "findTaxonByName arr name ignoreId =
     (case findTaxonByName_forEach arr name None of
        None \<Rightarrow> None
      | Some taxon \<Rightarrow>
          if truthy ignoreId \<and> taxon_id (props taxon) = the ignoreId then None else Some taxon)"

text \<open>\<^verbatim>\<open>addToParent(taxa, taxon, parentId)\<close>\<close>

definition addToParent :: "taxon list \<Rightarrow> taxon \<Rightarrow> jsval \<Rightarrow> taxon list" where
  "addToParent taxa taxon parentId =
     (case findTaxonById taxa (toString parentId) of
        Some (q, parent) \<Rightarrow>
          updateAt taxa q
            (\<lambda>parent. Taxon (props parent)
                         (Some ((case children parent of Some ch \<Rightarrow> ch | None \<Rightarrow> []) @ [taxon])))
      | None \<Rightarrow> taxa)"

text \<open>The request body of the two taxon routes, as the validators admit it.\<close>

record taxonBody =
  body_keyId :: uuid
  body_revisionId :: uuid
  body_scientificName :: string
  body_vernacularNameNo :: "string option"
  body_vernacularNameEn :: "string option"
  body_descriptionNo :: "string option"
  body_descriptionEn :: "string option"
  body_parentId :: "jsval option"

text \<open>\<^verbatim>\<open>setTaxonInfo(body)\<close>; \<^verbatim>\<open>v || undefined\<close> keeps a truthy value only.\<close>

definition orUndefined :: "string option \<Rightarrow> string option" where
  "orUndefined v = (if truthy v then v else None)"

definition setTaxonInfo :: "'a taxonBody_scheme \<Rightarrow> langText option \<times> langText option" where
  "setTaxonInfo body =
     (if truthy (body_vernacularNameNo body) \<or> truthy (body_vernacularNameEn body)
      then Some \<lparr>text_no = orUndefined (body_vernacularNameNo body),
                 text_en = orUndefined (body_vernacularNameEn body)\<rparr>
      else None,
      if truthy (body_descriptionNo body) \<or> truthy (body_descriptionEn body)
      then Some \<lparr>text_no = orUndefined (body_descriptionNo body),
                 text_en = orUndefined (body_descriptionEn body)\<rparr>
      else None)"

text \<open>
  \<^verbatim>\<open>modifyTaxonNames(taxon, taxonId, taxa, body)\<close>: the flag \<^verbatim>\<open>valid\<close> and the taxon
  object after the assignments. The tree is read before the first assignment only.
\<close>

definition modifyTaxonNames ::
  "taxon \<Rightarrow> string \<Rightarrow> taxon list \<Rightarrow> 'a taxonBody_scheme \<Rightarrow> bool \<times> taxon" where
  "modifyTaxonNames taxon taxonId taxa body =
     (let p0 = props taxon;
          conflict = (body_scientificName body \<noteq> []
                      \<and> findTaxonByName taxa (body_scientificName body) (Some taxonId) \<noteq> None);
          p1 = (if body_scientificName body \<noteq> [] \<and> \<not> conflict
                then p0\<lparr>scientificName := body_scientificName body\<rparr> else p0);
          p2 = (if truthy (body_vernacularNameNo body)
                then (case vernacularName p1 of
                        Some v \<Rightarrow> p1\<lparr>vernacularName := Some (v\<lparr>text_no := body_vernacularNameNo body\<rparr>)\<rparr>
                      | None \<Rightarrow> p1\<lparr>vernacularName :=
                                   Some \<lparr>text_no = body_vernacularNameNo body, text_en = None\<rparr>\<rparr>)
                else p1);
          p3 = (if truthy (body_vernacularNameEn body)
                then (case vernacularName p2 of
                        Some v \<Rightarrow> p2\<lparr>vernacularName := Some (v\<lparr>text_en := body_vernacularNameEn body\<rparr>)\<rparr>
                      | None \<Rightarrow> p2\<lparr>vernacularName :=
                                   Some \<lparr>text_no = None, text_en = body_vernacularNameEn body\<rparr>\<rparr>)
                else p2);
          p4 = (if truthy (body_descriptionNo body)
                then (case description p3 of
                        Some v \<Rightarrow> p3\<lparr>description := Some (v\<lparr>text_no := body_descriptionNo body\<rparr>)\<rparr>
                      | None \<Rightarrow> p3\<lparr>description :=
                                   Some \<lparr>text_no = body_descriptionNo body, text_en = None\<rparr>\<rparr>)
                else p3);
          p5 = (if truthy (body_descriptionEn body)
                then (case description p4 of
                        Some v \<Rightarrow> p4\<lparr>description := Some (v\<lparr>text_en := body_descriptionEn body\<rparr>)\<rparr>
                      | None \<Rightarrow> p4\<lparr>description :=
                                   Some \<lparr>text_no = None, text_en = body_descriptionEn body\<rparr>\<rparr>)
                else p4)
      in (\<not> conflict, Taxon p5 (children taxon)))"

text \<open>
  Where the node that was at path \<open>p\<close> is after child \<open>j\<close> of the array at path \<open>q\<close>
  (the top-level array for \<open>q = []\<close>) has been removed: nowhere when the removed child is
  the node or one of its ancestors, one index lower when the removed child is an earlier
  sibling on the path.
\<close>

definition relocate :: "ref \<Rightarrow> nat option \<Rightarrow> ref \<Rightarrow> ref option" where
  "relocate q removed p =
     (case removed of
        None \<Rightarrow> Some p
      | Some j \<Rightarrow>
          if prefix (q @ [j]) p then None
          else if prefix q p \<and> length q < length p \<and> j < p ! length q
          then Some (p[length q := p ! length q - 1])
          else Some p)"

text \<open>
  The object \<^verbatim>\<open>tmpTaxon\<close> after a splice: \<open>loc\<close> is where it still is in the tree,
  if it is, and \<open>detached\<close> is the object as it was before the splice, which is what it
  is when the splice took it or one of its ancestors out of the tree.
\<close>

definition objectAt :: "taxon list \<Rightarrow> ref option \<Rightarrow> taxon \<Rightarrow> taxon" where
  "objectAt taxa loc detached =
     (case loc of
        Some p \<Rightarrow> (case nodeAt taxa p of Some t \<Rightarrow> t | None \<Rightarrow> detached)
      | None \<Rightarrow> detached)"

definition locations :: "ref option \<Rightarrow> ref list" where
  "locations loc = (case loc of Some p \<Rightarrow> [p] | None \<Rightarrow> [])"

text \<open>
  \<^verbatim>\<open>taxa.push(tmpTaxon)\<close> and \<^verbatim>\<open>addToParent(taxa, tmpTaxon, parentId)\<close> for that
  object. The object is pushed, not a copy of it: the result is the tree and the paths at
  which the object is afterwards, and when the object is still in the tree and the new
  parent is the object or lies below it, the result is a cycle, which no JSON document
  holds.
\<close>

definition pushObject ::
  "taxon list \<Rightarrow> ref option \<Rightarrow> taxon \<Rightarrow> error + (taxon list \<times> ref list)" where
  "pushObject taxa loc detached =
     Inr (taxa @ [objectAt taxa loc detached], locations loc @ [[length taxa]])"

definition addObjectToParent ::
  "taxon list \<Rightarrow> ref option \<Rightarrow> taxon \<Rightarrow> jsval \<Rightarrow> error + (taxon list \<times> ref list)" where
  "addObjectToParent taxa loc detached parentId =
     (case findTaxonById taxa (toString parentId) of
        None \<Rightarrow> Inr (addToParent taxa (objectAt taxa loc detached) parentId, locations loc)
      | Some (b, parent) \<Rightarrow>
          if (case loc of Some p \<Rightarrow> prefix p b | None \<Rightarrow> False)
          then Inl CircularStructure
          else Inr (addToParent taxa (objectAt taxa loc detached) parentId,
                    locations loc
                      @ [b @ [case children parent of Some ch \<Rightarrow> length ch | None \<Rightarrow> 0]]))"

text \<open>
  \<^verbatim>\<open>updateParentTaxon(tmpTaxon, parentId, taxa, taxonId)\<close>, with \<^verbatim>\<open>tmpTaxon\<close> the
  node at path \<open>p\<close>. Reading \<^verbatim>\<open>children\<close> of an undefined parent, or \<^verbatim>\<open>splice\<close> of
  undefined children, raises a TypeError.
\<close>

definition updateParentTaxon ::
  "ref \<Rightarrow> jsval \<Rightarrow> taxon list \<Rightarrow> int \<Rightarrow> error + (taxon list \<times> ref list)" where
  "updateParentTaxon p parentId taxa taxonId =
     (case nodeAt taxa p of
        None \<Rightarrow> Inl TypeError
      | Some tmpTaxon \<Rightarrow>
          if truthy (taxon_parentId (props tmpTaxon))
          then (case findTaxonById taxa (the (taxon_parentId (props tmpTaxon))) of
                  None \<Rightarrow> Inl TypeError
                | Some (q, parentTaxon) \<Rightarrow>
                    (case children parentTaxon of
                       None \<Rightarrow> Inl TypeError
                     | Some ch \<Rightarrow>
                         let idx = findIndex (\<lambda>element. taxon_id (props element) = string_of_int taxonId) ch;
                             taxa' = updateAt taxa q
                                       (\<lambda>parentTaxon. Taxon (props parentTaxon) (Some (splice1 ch idx)));
                             loc = relocate q (spliced ch idx) p
                         in if parentId = JNum 0 then pushObject taxa' loc tmpTaxon
                            else addObjectToParent taxa' loc tmpTaxon parentId))
          else if parentId \<noteq> JNum 0
          then (let idx = findIndex (\<lambda>element. taxon_id (props element) = string_of_int taxonId) taxa;
                    taxa' = splice1 taxa idx;
                    loc = relocate [] (spliced taxa idx) p
                in addObjectToParent taxa' loc tmpTaxon parentId)
          else Inr (taxa, [p]))"

section \<open>The taxon routes: routes/taxa.js\<close>

text \<open>
  The content document: the taxa, the statements (of which the taxon routes read
  \<^verbatim>\<open>taxonId\<close> only), and the characters and whatever else in the extension.
\<close>

record statement =
  stmt_taxonId :: string

record content =
  content_taxa :: "taxon list option"
  content_statements :: "statement list option"

definition Taxon_findByPk :: "('c, 'm) database \<Rightarrow> int \<Rightarrow> taxonRow option" where
  "Taxon_findByPk db i = find (\<lambda>r. taxonRow_id r = i) (taxonTable db)"

text \<open>\<^verbatim>\<open>Taxon.create({ keyId })\<close>, with \<open>newId\<close> the primary key that the store generates.\<close>

definition Taxon_create ::
  "int \<Rightarrow> uuid \<Rightarrow> ('c, 'm) database \<Rightarrow> error + (taxonRow \<times> ('c, 'm) database)" where
  "Taxon_create newId keyId db =
     (if newId \<in> taxonRow_id ` set (taxonTable db) then Inl UniqueConstraintError
      else Inr (\<lparr>taxonRow_id = newId, taxonRow_keyId = keyId\<rparr>,
                db\<lparr>taxonTable := taxonTable db @ [\<lparr>taxonRow_id = newId, taxonRow_keyId = keyId\<rparr>]\<rparr>))"

text \<open>
  \<^verbatim>\<open>router.post('/')\<close> after validation and authorisation: the status code, the JSON
  body \<^verbatim>\<open>{ revisionId, taxonId }\<close> of a 200 response, and the store. Every exception
  ends in the \<^verbatim>\<open>catch\<close>, which answers 500; what was written before stays written.
\<close>

definition postTaxon ::
  "int \<Rightarrow> int \<Rightarrow> uuid \<Rightarrow> string \<Rightarrow> 'a taxonBody_scheme \<Rightarrow> ('x content_scheme, 'm) database
     \<Rightarrow> nat \<times> (uuid \<times> string) option \<times> ('x content_scheme, 'm) database" where
  "postTaxon defaultKeyMode newTaxonId newRevisionId user body db =
     (case findRevisionForKey (body_revisionId body) (body_keyId body) db of
        Inl e \<Rightarrow> (500, None, db)
      | Inr (revision, None) \<Rightarrow> (404, None, db)
      | Inr (revision, Some k) \<Rightarrow>
          let content = rev_content revision;
              taxa0 = (case content_taxa content of Some t \<Rightarrow> t | None \<Rightarrow> [])
          in if findTaxonByName taxa0 (body_scientificName body) None = None
             then (let (vernacularName, description) = setTaxonInfo body
                   in case Taxon_create newTaxonId (body_keyId body) db of
                        Inl e \<Rightarrow> (500, None, db)
                      | Inr (taxon, db1) \<Rightarrow>
                         (let newTaxon = Taxon \<lparr>taxon_id = string_of_int (taxonRow_id taxon),
                                                scientificName = body_scientificName body,
                                                vernacularName = vernacularName,
                                                description = description,
                                                taxon_parentId = None\<rparr> None;
                              taxa1 = (case body_parentId body of
                                         Some parentId \<Rightarrow>
                                           if truthyVal parentId then addToParent taxa0 newTaxon parentId
                                           else taxa0 @ [newTaxon]
                                       | None \<Rightarrow> taxa0 @ [newTaxon])
                          in (case createRevision defaultKeyMode newRevisionId k
                                     (content\<lparr>content_taxa := Some taxa1\<rparr>) (rev_media revision) user
                                     (Some (''Created new taxon: '' @ body_scientificName body))
                                     (Some (rev_mode revision)) db1 of
                                Inl e \<Rightarrow> (500, None, db1)
                              | Inr (revisionId, k', db2) \<Rightarrow>
                                  (200, Some (revisionId, string_of_int (taxonRow_id taxon)), db2))))
             else (409, None, db))"

text \<open>\<^verbatim>\<open>req.body.parentId !== tmpTaxon.parentId\<close>: a number never equals a string.\<close>

fun strictlyDiffers :: "jsval \<Rightarrow> string option \<Rightarrow> bool" where
  "strictlyDiffers (JStr a) (Some b) = (a \<noteq> b)"
| "strictlyDiffers v w = True"

text \<open>
  \<^verbatim>\<open>router.put('/:taxonId')\<close> after validation and authorisation: the status code, the
  JSON body (the revision id) of a 200 response, and the store. \<open>taxonId\<close> is the number
  that the path parameter denotes.
\<close>

definition putTaxon ::
  "int \<Rightarrow> uuid \<Rightarrow> int \<Rightarrow> string \<Rightarrow> 'a taxonBody_scheme \<Rightarrow> ('x content_scheme, 'm) database
     \<Rightarrow> nat \<times> uuid option \<times> ('x content_scheme, 'm) database" where
  "putTaxon defaultKeyMode newRevisionId taxonId user body db =
     (case findRevisionForKey (body_revisionId body) (body_keyId body) db of
        Inl e \<Rightarrow> (500, None, db)
      | Inr (revision, None) \<Rightarrow> (404, None, db)
      | Inr (revision, Some k) \<Rightarrow>
          (case Taxon_findByPk db taxonId of
             None \<Rightarrow> (404, None, db)
           | Some taxon \<Rightarrow>
              (let content = rev_content revision
               in (case content_taxa content of
                    None \<Rightarrow> (404, None, db)
                  | Some taxa0 \<Rightarrow>
                      (case findTaxonById_include taxa0 (string_of_int (taxonRow_id taxon)) of
                         (taxa1, None) \<Rightarrow> (404, None, db)
                       | (taxa1, Some (p, tmpTaxon)) \<Rightarrow>
                          (let (valid, tmpTaxon') =
                                 modifyTaxonNames tmpTaxon (string_of_int (taxonRow_id taxon)) taxa1 body;
                               taxa2 = updateAt taxa1 p (\<lambda>_. tmpTaxon');
                               statements' =
                                 (case (body_parentId body, content_statements content) of
                                    (Some parentId, Some sts) \<Rightarrow>
                                      if strictlyDiffers parentId (taxon_parentId (props tmpTaxon'))
                                      then Some (filter (\<lambda>element. stmt_taxonId element
                                                           \<noteq> taxon_id (props tmpTaxon')) sts)
                                      else Some sts
                                  | _ \<Rightarrow> content_statements content);
                               moved = (case body_parentId body of
                                          Some parentId \<Rightarrow>
                                            updateParentTaxon p (parseInt parentId) taxa2 (taxonRow_id taxon)
                                        | None \<Rightarrow> Inr (taxa2, [p]))
                           in (case moved of
                                Inl TypeError \<Rightarrow> (500, None, db)
                              | Inl e \<Rightarrow> if valid then (500, None, db) else (409, None, db)
                              | Inr (taxa3, locs) \<Rightarrow>
                                 (let taxa4 = fold (\<lambda>l t. updateAt t l (set_parentId None)) locs taxa3
                                  in if valid
                                     then (case createRevision defaultKeyMode newRevisionId k
                                                  (content\<lparr>content_taxa := Some taxa4, content_statements := statements'\<rparr>)
                                                  (rev_media revision) user
                                                  (Some (''Updated taxon: '' @ body_scientificName body))
                                                  (Some (rev_mode revision)) db of
                                             Inl e \<Rightarrow> (500, None, db)
                                           | Inr (revisionId, k', db') \<Rightarrow> (200, Some revisionId, db'))
                                     else (409, None, db)))))))))"

section \<open>Vocabulary of the statements\<close>

text \<open>
  The nodes of a tree, parents before children, and the invariant of the data model:
  scientific names are unique in the tree when compared without regard to case.
\<close>

fun allNodes :: "taxon list \<Rightarrow> taxon list" where
  "allNodes [] = []"
| "allNodes (element # rest) =
     element # (case children element of Some ch \<Rightarrow> allNodes ch | None \<Rightarrow> []) @ allNodes rest"

definition upperName :: "taxon \<Rightarrow> string" where
  "upperName t = toUpperCase (scientificName (props t))"

definition uniqueNames :: "taxon list \<Rightarrow> bool" where
  "uniqueNames arr = distinct (map upperName (allNodes arr))"

text \<open>What the searches read of a node: its id and its scientific name.\<close>

definition nodeLabel :: "taxon \<Rightarrow> string \<times> string" where
  "nodeLabel t = (taxon_id (props t), scientificName (props t))"

section \<open>Sample data\<close>

definition sampleKey :: key where
  "sampleKey = \<lparr>key_id = ''k1'', key_revisionId = Some ''r1''\<rparr>"

definition newKey :: key where
  "newKey = \<lparr>key_id = ''k2'', key_revisionId = None\<rparr>"

definition sampleDb :: "(unit, unit) database" where
  "sampleDb =
     \<lparr>keyTable = [sampleKey, newKey],
      revisionTable =
        [\<lparr>rev_id = ''r1'', rev_content = (), rev_media = (), rev_note = None,
          rev_createdBy = ''u1'', rev_status = ACCEPTED, rev_mode = 1\<rparr>,
         \<lparr>rev_id = ''r2'', rev_content = (), rev_media = (), rev_note = None,
          rev_createdBy = ''u1'', rev_status = DRAFT, rev_mode = 1\<rparr>],
      revisionsTable =
        [\<lparr>kr_keyId = ''k1'', kr_revisionId = ''r1''\<rparr>,
         \<lparr>kr_keyId = ''k1'', kr_revisionId = ''r2''\<rparr>],
      taxonTable = []\<rparr>"

definition clause :: "string \<Rightarrow> string \<Rightarrow> premiseClause" where
  "clause c s = \<lparr>characterId = c, stateId = s\<rparr>"

definition sampleChars :: "character list" where
  "sampleChars =
     [\<lparr>char_id = ''1'',
       logicalPremise = Some (PremiseArray
         [Disjunction [clause ''2'' ''a'', clause ''2'' ''b'', clause ''3'' ''c''],
          Disjunction [clause ''2'' ''a'', clause ''3'' ''d''],
          Disjunction [clause ''3'' ''c'', clause ''3'' ''d'']])\<rparr>,
      \<lparr>char_id = ''2'', logicalPremise = None\<rparr>,
      \<lparr>char_id = ''3'',
       logicalPremise = Some (PremiseArray
         [Disjunction [clause ''2'' ''a'', clause ''2'' ''b''],
          Disjunction [clause ''1'' ''e'', clause ''1'' ''f'']])\<rparr>]"

definition existingRange :: numericalState where
  "existingRange = \<lparr>ns_id = ''7'', ns_min = NumV 0, ns_max = NumV 10, ns_stepSize = NumV 1\<rparr>"

definition raisedMin :: numericalState where
  "raisedMin = \<lparr>ns_id = ''7'', ns_min = NumV 1, ns_max = NumV 10, ns_stepSize = NumV 1\<rparr>"

text \<open>
  The same range submitted as strings, and a conversion of strings to numbers that is
  right on the strings of the samples.
\<close>

definition sameAsStrings :: numericalState where
  "sameAsStrings =
     \<lparr>ns_id = ''7'', ns_min = StrV ''0'', ns_max = StrV ''10'', ns_stepSize = StrV ''1''\<rparr>"

definition sampleToNumber :: "string \<Rightarrow> real option" where
  "sampleToNumber s = map_of [(''0'', 0), (''1'', 1), (''9'', 9), (''10'', 10)] s"

definition loweredMaxAsStrings :: numericalState where
  "loweredMaxAsStrings =
     \<lparr>ns_id = ''7'', ns_min = StrV ''0'', ns_max = StrV ''9'', ns_stepSize = StrV ''1''\<rparr>"

definition sampleEntity :: entity where
  "sampleEntity = \<lparr>media = Some [JNum 5, JStr ''6'', JNum 7]\<rparr>"

definition sampleMedia :: revisionMedia where
  "sampleMedia =
     \<lparr>mediaElements = Some [\<lparr>me_id = JStr ''5'', me_license = None, me_creators = Some [''ann'']\<rparr>,
                            \<lparr>me_id = JStr ''6'', me_license = None, me_creators = None\<rparr>,
                            \<lparr>me_id = JStr ''7'', me_license = None, me_creators = Some [''ann'']\<rparr>],
      persons = Some [\<lparr>person_id = ''ann'', person_name = ''Ann''\<rparr>]\<rparr>"

definition sampleMediaRow :: mediaRow where
  "sampleMediaRow = \<lparr>media_id = 1, filePath = Some ''a.jpg'', thumbnailPath = Some ''a-thumb.jpg''\<rparr>"

definition missingFileStore :: mediaStore where
  "missingFileStore =
     \<lparr>files = [(''a-thumb.jpg'', Removable)],
      mediaTable = [sampleMediaRow],
      mediaInfoTable = [\<lparr>mi_id = 1, mi_mediaId = 1\<rparr>]\<rparr>"

definition completeStore :: mediaStore where
  "completeStore =
     \<lparr>files = [(''a.jpg'', Removable), (''a-thumb.jpg'', Removable)],
      mediaTable = [sampleMediaRow],
      mediaInfoTable = [\<lparr>mi_id = 1, mi_mediaId = 1\<rparr>]\<rparr>"

text \<open>
  A taxon tree of depth three, in a revision of key \<open>k1\<close>:
  Aves (1) with the children Passeriformes (2), which has the child Corvidae (3), and
  Anseriformes (4); and Mammalia (5).
\<close>

definition taxonNode :: "string \<Rightarrow> string \<Rightarrow> taxon list option \<Rightarrow> taxon" where
  "taxonNode i n ch =
     Taxon \<lparr>taxon_id = i, scientificName = n, vernacularName = None, description = None,
            taxon_parentId = None\<rparr> ch"

definition sampleTaxa :: "taxon list" where
  "sampleTaxa =
     [taxonNode ''1'' ''Aves''
        (Some [taxonNode ''2'' ''Passeriformes'' (Some [taxonNode ''3'' ''Corvidae'' None]),
               taxonNode ''4'' ''Anseriformes'' None]),
      taxonNode ''5'' ''Mammalia'' None]"

definition sampleRevision :: "(content, unit) revision" where
  "sampleRevision =
     \<lparr>rev_id = ''r1'', rev_content = \<lparr>content_taxa = Some sampleTaxa, content_statements = None\<rparr>,
      rev_media = (), rev_note = None, rev_createdBy = ''u1'', rev_status = ACCEPTED,
      rev_mode = 1\<rparr>"

definition taxaDb :: "(content, unit) database" where
  "taxaDb =
     \<lparr>keyTable = [sampleKey],
      revisionTable = [sampleRevision],
      revisionsTable = [\<lparr>kr_keyId = ''k1'', kr_revisionId = ''r1''\<rparr>],
      taxonTable = map (\<lambda>i. \<lparr>taxonRow_id = i, taxonRow_keyId = ''k1''\<rparr>) [1, 2, 3, 4, 5]\<rparr>"

definition sampleBody :: taxonBody where
  "sampleBody =
     \<lparr>body_keyId = ''k1'', body_revisionId = ''r1'', body_scientificName = ''Corvidae'',
      body_vernacularNameNo = Some ''kraakefugler'', body_vernacularNameEn = None,
      body_descriptionNo = None, body_descriptionEn = Some ''crows and jays'',
      body_parentId = None\<rparr>"

definition renameBody :: "string \<Rightarrow> taxonBody" where
  "renameBody name =
     \<lparr>body_keyId = ''k1'', body_revisionId = ''r1'', body_scientificName = name,
      body_vernacularNameNo = None, body_vernacularNameEn = None,
      body_descriptionNo = None, body_descriptionEn = None, body_parentId = None\<rparr>"

definition moveBody :: "string \<Rightarrow> jsval \<Rightarrow> taxonBody" where
  "moveBody name parentId = (renameBody name)\<lparr>body_parentId := Some parentId\<rparr>"

text \<open>
  The sample tree after the request to move Corvidae (3) under Mammalia (5), and after
  the request to move it to the top level.
\<close>

definition movedUnderMammalia :: "taxon list" where
  "movedUnderMammalia =
     [taxonNode ''1'' ''Aves''
        (Some [taxonNode ''2'' ''Passeriformes'' (Some [taxonNode ''3'' ''Corvidae'' None])]),
      taxonNode ''5'' ''Mammalia'' (Some [taxonNode ''3'' ''Corvidae'' None])]"

definition movedToRoot :: "taxon list" where
  "movedToRoot =
     [taxonNode ''1'' ''Aves''
        (Some [taxonNode ''2'' ''Passeriformes'' (Some [taxonNode ''3'' ''Corvidae'' None])]),
      taxonNode ''5'' ''Mammalia'' None,
      taxonNode ''3'' ''Corvidae'' None]"

text \<open>The sample tree after the request to move Passeriformes (2) under Mammalia (5).\<close>

definition movedPasseriformes :: "taxon list" where
  "movedPasseriformes =
     [taxonNode ''1'' ''Aves'' (Some [taxonNode ''4'' ''Anseriformes'' None]),
      taxonNode ''5'' ''Mammalia''
        (Some [taxonNode ''2'' ''Passeriformes'' (Some [taxonNode ''3'' ''Corvidae'' None])])]"

text \<open>The taxa of the revision that a request created, if it created one.\<close>

definition taxaOfRevision ::
  "uuid \<Rightarrow> nat \<times> 'b \<times> ('x content_scheme, 'm) database \<Rightarrow> taxon list option" where
  "taxaOfRevision rid response =
     (case Revision_findByPk (snd (snd response)) rid of
        None \<Rightarrow> None
      | Some r \<Rightarrow> content_taxa (rev_content r))"

text \<open>
  A tree that breaks the invariant of the data model: two nodes whose names differ in
  case only. The route that creates a revision stores whatever content it is given, so a
  revision can hold such a tree.
\<close>

definition duplicateTaxa :: "taxon list" where
  "duplicateTaxa = [taxonNode ''1'' ''Foo'' None, taxonNode ''2'' ''foo'' None]"

definition duplicateDb :: "(content, unit) database" where
  "duplicateDb =
     \<lparr>keyTable = [sampleKey],
      revisionTable =
        [sampleRevision\<lparr>rev_content :=
           \<lparr>content_taxa = Some duplicateTaxa, content_statements = None\<rparr>\<rparr>],
      revisionsTable = [\<lparr>kr_keyId = ''k1'', kr_revisionId = ''r1''\<rparr>],
      taxonTable = map (\<lambda>i. \<lparr>taxonRow_id = i, taxonRow_keyId = ''k1''\<rparr>) [1, 2]\<rparr>"

section \<open>Revision lifecycle\<close>

lemma find_append:
  "find P (xs @ [x]) =
     (case find P xs of Some y \<Rightarrow> Some y | None \<Rightarrow> if P x then Some x else None)"
  by (induction xs) auto

lemma find_fresh: "rid \<notin> rev_id ` set rows \<Longrightarrow> find (\<lambda>r. rev_id r = rid) rows = None"
  by (induction rows) auto

lemma find_status_same:
  "find (\<lambda>r. rev_id r = rid)
        (map (\<lambda>r. if rev_id r = rid then r\<lparr>rev_status := st\<rparr> else r) rows)
     = map_option (\<lambda>r. r\<lparr>rev_status := st\<rparr>) (find (\<lambda>r. rev_id r = rid) rows)"
  by (induction rows) auto

lemma find_status_other:
  "cur \<noteq> rid \<Longrightarrow>
   find (\<lambda>r. rev_id r = cur)
        (map (\<lambda>r. if rev_id r = rid then r\<lparr>rev_status := st\<rparr> else r) rows)
     = find (\<lambda>r. rev_id r = cur) rows"
  by (induction rows) auto

lemma status_update_fresh:
  "rid \<notin> rev_id ` set rows \<Longrightarrow>
   map (\<lambda>r. if rev_id r = rid then r\<lparr>rev_status := st\<rparr> else r) rows = rows"
  by (induction rows) auto

text \<open>
  C1. When the store accepts the generated revision id, \<open>createRevision\<close> returns that
  id, appends the join row of the key and the new revision, and appends the new revision
  row, whose status is ACCEPTED if the key's \<open>revisionId\<close> is unset (falsy) and DRAFT if it
  is set; no other revision row changes. If the \<open>revisionId\<close> is unset, the key instance
  points to the new revision and the key table is the old one with exactly the rows of
  this key repointed to the new revision. If it is set, the key instance and the key table
  are unchanged. Looking the new id up gives the new row.
\<close>

theorem createRevision_first_accepted_then_draft:
  assumes fresh: "newId \<notin> rev_id ` set (revisionTable db)"
  shows "\<exists>k' db'. createRevision d newId k c m u note mode db = Inr (newId, k', db') \<and>
     revisionsTable db' = revisionsTable db @ [\<lparr>kr_keyId = key_id k, kr_revisionId = newId\<rparr>] \<and>
     taxonTable db' = taxonTable db \<and>
     revisionTable db' = revisionTable db @
       [\<lparr>rev_id = newId, rev_content = c, rev_media = m, rev_note = note, rev_createdBy = u,
         rev_status = (if truthy (key_revisionId k) then DRAFT else ACCEPTED),
         rev_mode = (if truthyNum mode then the mode else d)\<rparr>] \<and>
     (if truthy (key_revisionId k)
      then map_option rev_status (Revision_findByPk db' newId) = Some DRAFT
           \<and> k' = k \<and> keyTable db' = keyTable db
      else map_option rev_status (Revision_findByPk db' newId) = Some ACCEPTED
           \<and> k' = k\<lparr>key_revisionId := Some newId\<rparr>
           \<and> key_revisionId k' = Some newId
           \<and> keyTable db' =
               map (\<lambda>row. if key_id row = key_id k then row\<lparr>key_revisionId := Some newId\<rparr>
                          else row) (keyTable db)
           \<and> (\<forall>row \<in> set (keyTable db'). key_id row = key_id k \<longrightarrow> key_revisionId row = Some newId))"
  using fresh
  by (auto simp: createRevision_def Revision_create_def Let_def Revision_findByPk_def
      Key_updateRevisionId_def Revision_updateStatus_def find_append find_status_same find_fresh
      status_update_fresh)

theorem createRevision_first_accepted_then_draft_witness:
  "''r3'' \<notin> rev_id ` set (revisionTable sampleDb) \<and>
   (\<exists>k' db'. createRevision 1 ''r3'' newKey () () ''u1'' None None sampleDb = Inr (''r3'', k', db')
      \<and> map_option rev_status (Revision_findByPk db' ''r3'') = Some ACCEPTED
      \<and> key_revisionId k' = Some ''r3''
      \<and> keyTable db' = [sampleKey, \<lparr>key_id = ''k2'', key_revisionId = Some ''r3''\<rparr>]) \<and>
   (\<exists>k' db'. createRevision 1 ''r3'' sampleKey () () ''u1'' None None sampleDb = Inr (''r3'', k', db')
      \<and> map_option rev_status (Revision_findByPk db' ''r3'') = Some DRAFT
      \<and> k' = sampleKey \<and> keyTable db' = [sampleKey, newKey])"
proof -
  have fresh: "''r3'' \<notin> rev_id ` set (revisionTable sampleDb)"
    by (simp add: sampleDb_def)
  have new: "\<not> truthy (key_revisionId newKey)" and old: "truthy (key_revisionId sampleKey)"
    by (simp_all add: newKey_def sampleKey_def truthy_def)
  have keys: "keyTable sampleDb = [sampleKey, newKey]" by (simp add: sampleDb_def)
  have repoint: "map (\<lambda>row. if key_id row = key_id newKey then row\<lparr>key_revisionId := Some ''r3''\<rparr>
                          else row) [sampleKey, newKey]
       = [sampleKey, \<lparr>key_id = ''k2'', key_revisionId = Some ''r3''\<rparr>]"
    by (simp add: sampleKey_def newKey_def)
  from createRevision_first_accepted_then_draft [OF fresh, of 1 newKey "()" "()" "''u1''" None None]
    createRevision_first_accepted_then_draft [OF fresh, of 1 sampleKey "()" "()" "''u1''" None None]
  show ?thesis using fresh new old keys repoint by auto
qed

text \<open>
  C2. The status-update route changes the store only with answer 200, and then the
  revision belongs to the given key and is not the key's current revision. When the target
  is the key's current revision the store is unchanged and the answer is 409 (500 when the
  join row or the revision row is missing). Whatever the answer, the row of the key's
  current revision is what it was, and so is every row but the target's.
\<close>

theorem putStatus_never_rewrites_current:
  assumes "putStatus revisionId keyId st db = (code, db')"
  shows "(db' \<noteq> db \<longrightarrow>
            code = 200 \<and> Revisions_findOne db revisionId keyId \<noteq> None
            \<and> (\<exists>k. Key_findByPk db keyId = Some k \<and> key_revisionId k \<noteq> Some revisionId))
       \<and> (\<forall>k. Key_findByPk db keyId = Some k \<and> key_revisionId k = Some revisionId \<longrightarrow>
             db' = db \<and> (code = 409 \<or> code = 500)
             \<and> (Revisions_findOne db revisionId keyId \<noteq> None
                  \<and> Revision_findByPk db revisionId \<noteq> None \<longrightarrow> code = 409))
       \<and> (\<forall>k cur. Key_findByPk db keyId = Some k \<and> key_revisionId k = Some cur \<longrightarrow>
             Revision_findByPk db' cur = Revision_findByPk db cur)
       \<and> (\<forall>r. r \<noteq> revisionId \<longrightarrow> Revision_findByPk db' r = Revision_findByPk db r)
       \<and> keyTable db' = keyTable db \<and> revisionsTable db' = revisionsTable db"
  using assms
  by (auto simp: putStatus_def findRevisionForKey_def Revision_updateStatus_def
      Revision_findByPk_def find_status_other
      split: sum.splits option.splits if_splits prod.splits)

theorem putStatus_never_rewrites_current_witness:
  "putStatus ''r1'' ''k1'' DRAFT sampleDb = (409, sampleDb)
   \<and> Key_findByPk sampleDb ''k1'' = Some sampleKey \<and> key_revisionId sampleKey = Some ''r1''
   \<and> Revision_findByPk (snd (putStatus ''r2'' ''k1'' ACCEPTED sampleDb)) ''r1''
       = Revision_findByPk sampleDb ''r1''
   \<and> fst (putStatus ''r2'' ''k1'' ACCEPTED sampleDb) = 200
   \<and> map_option rev_status (Revision_findByPk (snd (putStatus ''r2'' ''k1'' ACCEPTED sampleDb)) ''r2'')
       = Some ACCEPTED"
proof -
  have k: "Key_findByPk sampleDb ''k1'' = Some sampleKey" "key_revisionId sampleKey = Some ''r1''"
    by (simp_all add: Key_findByPk_def sampleDb_def sampleKey_def)
  have j: "Revisions_findOne sampleDb ''r1'' ''k1'' \<noteq> None" "Revision_findByPk sampleDb ''r1'' \<noteq> None"
    by (simp_all add: Revisions_findOne_def Revision_findByPk_def sampleDb_def)
  obtain code db' where r: "putStatus ''r1'' ''k1'' DRAFT sampleDb = (code, db')"
    by (cases "putStatus ''r1'' ''k1'' DRAFT sampleDb")
  from putStatus_never_rewrites_current [OF r] k j have "code = 409" "db' = sampleDb"
    by blast+
  moreover
  obtain code2 db2 where r2: "putStatus ''r2'' ''k1'' ACCEPTED sampleDb = (code2, db2)"
    by (cases "putStatus ''r2'' ''k1'' ACCEPTED sampleDb")
  from putStatus_never_rewrites_current [OF r2] k
  have "Revision_findByPk db2 ''r1'' = Revision_findByPk sampleDb ''r1''" by blast
  moreover have "code2 = 200"
    "map_option rev_status (Revision_findByPk db2 ''r2'') = Some ACCEPTED"
    using r2
    by (auto simp: putStatus_def findRevisionForKey_def Revisions_findOne_def
        Revision_findByPk_def Key_findByPk_def sampleDb_def sampleKey_def newKey_def
        Revision_updateStatus_def)
  ultimately show ?thesis using r r2 k by simp
qed

section \<open>Character premises\<close>

lemma prunedEntries_filter_map:
  "prunedEntries hit subs = filter lengthGreaterOne (map (withoutClauses hit) subs)"
  by (induction subs) (auto simp: prunedEntries_def)

lemma withoutClauses_state:
  "(\<lambda>subElement. case subElement of
        Disjunction d \<Rightarrow> Disjunction (filter (\<lambda>el. stateId el \<noteq> i) d)
      | NonArray n \<Rightarrow> NonArray n) = withoutClauses (\<lambda>el. stateId el = i)"
  by (rule ext) (simp add: withoutClauses_def split: subElement.splits)

lemma withoutClauses_character:
  "(\<lambda>subElement. case subElement of
        Disjunction d \<Rightarrow> Disjunction (filter (\<lambda>el. characterId el \<noteq> i) d)
      | NonArray n \<Rightarrow> NonArray n) = withoutClauses (\<lambda>el. characterId el = i)"
  by (rule ext) (simp add: withoutClauses_def split: subElement.splits)

lemma Disjunction_in_prunedEntries:
  "Disjunction d \<in> set (prunedEntries hit subs) \<longleftrightarrow>
     (\<exists>d0. Disjunction d0 \<in> set subs \<and> d = [el \<leftarrow> d0. \<not> hit el] \<and> 1 < length d)"
  unfolding prunedEntries_filter_map
  by (induction subs) (auto simp: withoutClauses_def split: subElement.splits)

text \<open>
  C3. \<open>removeStatePremises\<close> returns an array of the same length. A character whose
  \<open>logicalPremise\<close> is an array keeps its other properties; its premise becomes the
  pruned entries (every clause with the removed state id taken out of every disjunction,
  every entry of length at most one dropped), or undefined when exactly one entry
  remains. The disjunctions that remain are exactly the filtered disjunctions of length
  above one. A character without an array-valued premise is unchanged.
\<close>

theorem removeStatePremises_prunes:
  "length (removeStatePremises i chars) = length chars \<and>
   (\<forall>k < length chars.
      (case logicalPremise (chars ! k) of
         Some (PremiseArray subs) \<Rightarrow>
           removeStatePremises i chars ! k =
             (chars ! k)\<lparr>logicalPremise :=
                (if length (prunedEntries (\<lambda>el. stateId el = i) subs) = 1 then None
                 else Some (PremiseArray (prunedEntries (\<lambda>el. stateId el = i) subs)))\<rparr>
           \<and> (\<forall>d. Disjunction d \<in> set (prunedEntries (\<lambda>el. stateId el = i) subs) \<longleftrightarrow>
                  (\<exists>d0. Disjunction d0 \<in> set subs \<and> d = [el \<leftarrow> d0. stateId el \<noteq> i]
                        \<and> 1 < length d))
       | _ \<Rightarrow> removeStatePremises i chars ! k = chars ! k))"
  by (auto simp: removeStatePremises_def Let_def withoutClauses_state
      prunedEntries_filter_map[symmetric] Disjunction_in_prunedEntries
      split: option.splits premise.splits)

theorem removeStatePremises_prunes_witness:
  "removeStatePremises ''a'' sampleChars =
     [\<lparr>char_id = ''1'',
       logicalPremise = Some (PremiseArray
         [Disjunction [clause ''2'' ''b'', clause ''3'' ''c''],
          Disjunction [clause ''3'' ''c'', clause ''3'' ''d'']])\<rparr>,
      \<lparr>char_id = ''2'', logicalPremise = None\<rparr>,
      \<lparr>char_id = ''3'', logicalPremise = None\<rparr>]"
proof -
  have len: "length sampleChars = 3" by (simp add: sampleChars_def)
  have nth: "sampleChars ! 0 = hd sampleChars" "sampleChars ! Suc 0 = hd (tl sampleChars)"
    "sampleChars ! Suc (Suc 0) = hd (tl (tl sampleChars))"
    by (simp_all add: sampleChars_def)
  from removeStatePremises_prunes [of "''a''" sampleChars]
  have l: "length (removeStatePremises ''a'' sampleChars) = 3"
    and e: "\<And>k. k < 3 \<Longrightarrow>
      (case logicalPremise (sampleChars ! k) of
         Some (PremiseArray subs) \<Rightarrow>
           removeStatePremises ''a'' sampleChars ! k =
             (sampleChars ! k)\<lparr>logicalPremise :=
                (if length (prunedEntries (\<lambda>el. stateId el = ''a'') subs) = 1 then None
                 else Some (PremiseArray (prunedEntries (\<lambda>el. stateId el = ''a'') subs)))\<rparr>
           \<and> (\<forall>d. Disjunction d \<in> set (prunedEntries (\<lambda>el. stateId el = ''a'') subs) \<longleftrightarrow>
                  (\<exists>d0. Disjunction d0 \<in> set subs \<and> d = [el \<leftarrow> d0. stateId el \<noteq> ''a'']
                        \<and> 1 < length d))
       | _ \<Rightarrow> removeStatePremises ''a'' sampleChars ! k = sampleChars ! k)"
    unfolding len by blast+
  have e0: "removeStatePremises ''a'' sampleChars ! 0 =
      \<lparr>char_id = ''1'',
       logicalPremise = Some (PremiseArray
         [Disjunction [clause ''2'' ''b'', clause ''3'' ''c''],
          Disjunction [clause ''3'' ''c'', clause ''3'' ''d'']])\<rparr>"
    using e [of 0]
    by (simp add: nth sampleChars_def prunedEntries_def withoutClauses_def clause_def)
  have e1: "removeStatePremises ''a'' sampleChars ! Suc 0 = \<lparr>char_id = ''2'', logicalPremise = None\<rparr>"
    using e [of "Suc 0"] by (simp add: nth sampleChars_def)
  have e2: "removeStatePremises ''a'' sampleChars ! Suc (Suc 0) = \<lparr>char_id = ''3'', logicalPremise = None\<rparr>"
    using e [of "Suc (Suc 0)"]
    by (simp add: nth sampleChars_def prunedEntries_def withoutClauses_def clause_def)
  show ?thesis
    by (rule nth_equalityI) (use l e0 e1 e2 in \<open>auto simp: less_Suc_eq numeral_3_eq_3\<close>)
qed

lemma removeCharacterPremises_nth:
  "k < length chars \<Longrightarrow>
   removeCharacterPremises i chars ! k =
     (case logicalPremise (chars ! k) of
        Some (PremiseArray subs) \<Rightarrow>
          (chars ! k)\<lparr>logicalPremise :=
             Some (PremiseArray (prunedEntries (\<lambda>el. characterId el = i) subs))\<rparr>
      | _ \<Rightarrow> chars ! k)"
  by (simp add: removeCharacterPremises_def Let_def withoutClauses_character
      prunedEntries_filter_map split: option.splits premise.splits)

lemma removeCharacterPremises_clauses:
  assumes "c \<in> set (removeCharacterPremises i chars)" and "el \<in> clausesOf c"
  shows "characterId el \<noteq> i"
proof -
  from assms(1) obtain k where k: "k < length chars" and c: "c = removeCharacterPremises i chars ! k"
    by (auto simp: in_set_conv_nth removeCharacterPremises_def)
  show ?thesis
    using assms(2) unfolding c removeCharacterPremises_nth[OF k]
    by (auto simp: clausesOf_def Disjunction_in_prunedEntries split: option.splits premise.splits)
qed

text \<open>
  C5, as the code has it. \<open>checkMinMaxValues\<close> purges the character's id from the
  premises of all characters exactly when
  \<^verbatim>\<open>existingValues.stepSize !== newValues.stepSize\<close>, or
  \<^verbatim>\<open>existingValues.min < newValues.min\<close>, or \<^verbatim>\<open>existingValues.max > newValues.max\<close>,
  as the language compares the values, numbers or strings, as they were stored and
  submitted: then no clause of an array-valued premise names the character, and each
  such premise is its pruned entries. Otherwise the characters are returned unchanged.
  When all six values are numbers the condition is that the step size differs, or the
  existing minimum is below the new minimum, or the existing maximum is above the new
  maximum.
\<close>

theorem checkMinMaxValues_purges_when_range_shrinks:
  "length (checkMinMaxValues toNumber i newValues existingValues chars) = length chars \<and>
   (if strictNotEqual (ns_stepSize existingValues) (ns_stepSize newValues)
       \<or> lessThan_js toNumber (ns_min existingValues) (ns_min newValues)
       \<or> greaterThan_js toNumber (ns_max existingValues) (ns_max newValues)
    then (\<forall>c \<in> set (checkMinMaxValues toNumber i newValues existingValues chars).
            \<forall>el \<in> clausesOf c. characterId el \<noteq> i)
         \<and> (\<forall>k < length chars.
               checkMinMaxValues toNumber i newValues existingValues chars ! k =
                 (case logicalPremise (chars ! k) of
                    Some (PremiseArray subs) \<Rightarrow>
                      (chars ! k)\<lparr>logicalPremise :=
                         Some (PremiseArray (prunedEntries (\<lambda>el. characterId el = i) subs))\<rparr>
                  | _ \<Rightarrow> chars ! k))
    else checkMinMaxValues toNumber i newValues existingValues chars = chars) \<and>
   ((strictNotEqual (NumV s) (NumV s') \<or> lessThan_js toNumber (NumV a) (NumV a')
       \<or> greaterThan_js toNumber (NumV b) (NumV b'))
      = (s \<noteq> s' \<or> a < a' \<or> b > b')) \<and>
   ((strictNotEqual (StrV x) (StrV x') \<or> lessThan_js toNumber (StrV y) (StrV y')
       \<or> greaterThan_js toNumber (StrV z) (StrV z'))
      = (x \<noteq> x' \<or> stringLess y y' \<or> stringLess z' z)) \<and>
   strictNotEqual (NumV s) (StrV x) \<and> strictNotEqual (StrV x) (NumV s) \<and>
   (lessThan_js toNumber (NumV a) (StrV y)
      = (case toNumber y of Some a' \<Rightarrow> a < a' | None \<Rightarrow> False)) \<and>
   (lessThan_js toNumber (StrV y) (NumV a)
      = (case toNumber y of Some a' \<Rightarrow> a' < a | None \<Rightarrow> False))"
  using removeCharacterPremises_clauses[of _ i chars] removeCharacterPremises_nth[of _ chars i]
  by (simp add: checkMinMaxValues_def greaterThan_js_def split: option.splits)
     (simp add: removeCharacterPremises_def)

theorem checkMinMaxValues_purges_when_range_shrinks_witness:
  "lessThan_js sampleToNumber (ns_min existingRange) (ns_min raisedMin)
   \<and> checkMinMaxValues sampleToNumber ''2'' raisedMin existingRange sampleChars =
       [\<lparr>char_id = ''1'',
         logicalPremise = Some (PremiseArray [Disjunction [clause ''3'' ''c'', clause ''3'' ''d'']])\<rparr>,
        \<lparr>char_id = ''2'', logicalPremise = None\<rparr>,
        \<lparr>char_id = ''3'',
         logicalPremise = Some (PremiseArray [Disjunction [clause ''1'' ''e'', clause ''1'' ''f'']])\<rparr>]
   \<and> checkMinMaxValues sampleToNumber ''2'' existingRange existingRange sampleChars = sampleChars
   \<and> length (checkMinMaxValues sampleToNumber ''2'' sameAsStrings existingRange sampleChars) = 3
   \<and> checkMinMaxValues sampleToNumber ''2'' sameAsStrings existingRange sampleChars \<noteq> sampleChars
   \<and> checkMinMaxValues sampleToNumber ''2'' loweredMaxAsStrings sameAsStrings sampleChars = sampleChars"
proof -
  have raised: "lessThan_js sampleToNumber (ns_min existingRange) (ns_min raisedMin)"
    by (simp add: existingRange_def raisedMin_def)
  have len: "length sampleChars = 3" by (simp add: sampleChars_def)
  have nth: "sampleChars ! 0 = hd sampleChars" "sampleChars ! Suc 0 = hd (tl sampleChars)"
    "sampleChars ! Suc (Suc 0) = hd (tl (tl sampleChars))"
    by (simp_all add: sampleChars_def)
  let ?r = "checkMinMaxValues sampleToNumber ''2'' raisedMin existingRange sampleChars"
  from checkMinMaxValues_purges_when_range_shrinks
         [of sampleToNumber "''2''" raisedMin existingRange sampleChars] raised
  have l: "length ?r = 3"
    and e: "\<And>k. k < 3 \<Longrightarrow> ?r ! k =
                 (case logicalPremise (sampleChars ! k) of
                    Some (PremiseArray subs) \<Rightarrow>
                      (sampleChars ! k)\<lparr>logicalPremise :=
                         Some (PremiseArray (prunedEntries (\<lambda>el. characterId el = ''2'') subs))\<rparr>
                  | _ \<Rightarrow> sampleChars ! k)"
    unfolding len by simp_all
  have e0: "?r ! 0 = \<lparr>char_id = ''1'',
         logicalPremise = Some (PremiseArray [Disjunction [clause ''3'' ''c'', clause ''3'' ''d'']])\<rparr>"
    using e [of 0]
    by (simp add: nth sampleChars_def prunedEntries_def withoutClauses_def clause_def)
  have e1: "?r ! Suc 0 = \<lparr>char_id = ''2'', logicalPremise = None\<rparr>"
    using e [of "Suc 0"] by (simp add: nth sampleChars_def)
  have e2: "?r ! Suc (Suc 0) = \<lparr>char_id = ''3'',
         logicalPremise = Some (PremiseArray [Disjunction [clause ''1'' ''e'', clause ''1'' ''f'']])\<rparr>"
    using e [of "Suc (Suc 0)"]
    by (simp add: nth sampleChars_def prunedEntries_def withoutClauses_def clause_def)
  have purged: "?r =
       [\<lparr>char_id = ''1'',
         logicalPremise = Some (PremiseArray [Disjunction [clause ''3'' ''c'', clause ''3'' ''d'']])\<rparr>,
        \<lparr>char_id = ''2'', logicalPremise = None\<rparr>,
        \<lparr>char_id = ''3'',
         logicalPremise = Some (PremiseArray [Disjunction [clause ''1'' ''e'', clause ''1'' ''f'']])\<rparr>]"
    by (rule nth_equalityI) (use l e0 e1 e2 in \<open>auto simp: less_Suc_eq numeral_3_eq_3\<close>)
  from checkMinMaxValues_purges_when_range_shrinks
         [of sampleToNumber "''2''" existingRange existingRange sampleChars]
  have same: "checkMinMaxValues sampleToNumber ''2'' existingRange existingRange sampleChars
      = sampleChars"
    by (simp add: existingRange_def greaterThan_js_def)
  from checkMinMaxValues_purges_when_range_shrinks
         [of sampleToNumber "''2''" sameAsStrings existingRange sampleChars]
  have strLen: "length (checkMinMaxValues sampleToNumber ''2'' sameAsStrings existingRange sampleChars) = 3"
    by (simp add: len)
  have strPurge: "checkMinMaxValues sampleToNumber ''2'' sameAsStrings existingRange sampleChars
      \<noteq> sampleChars"
    by (simp add: checkMinMaxValues_def removeCharacterPremises_def sameAsStrings_def
        existingRange_def sampleChars_def clause_def)
  from checkMinMaxValues_purges_when_range_shrinks
         [of sampleToNumber "''2''" loweredMaxAsStrings sameAsStrings sampleChars]
  have lowered: "checkMinMaxValues sampleToNumber ''2'' loweredMaxAsStrings sameAsStrings sampleChars
      = sampleChars"
    by (simp add: loweredMaxAsStrings_def sameAsStrings_def greaterThan_js_def)
  from raised purged same strLen strPurge lowered show ?thesis by simp
qed

text \<open>
  C5 as stated fails: the minimum is raised from 0 to 1, all values being numbers, so
  the step size is the same, the new minimum is not below the existing one and the
  existing maximum is not above the new one; yet the characters are not returned
  unchanged.
\<close>

theorem checkMinMaxValues_counterexample:
  "ns_stepSize existingRange = NumV 1 \<and> ns_stepSize raisedMin = NumV 1
   \<and> ns_min existingRange = NumV 0 \<and> ns_min raisedMin = NumV 1
   \<and> ns_max existingRange = NumV 10 \<and> ns_max raisedMin = NumV 10
   \<and> \<not> ((1::real) \<noteq> 1 \<or> (1::real) < 0 \<or> (10::real) > 10)
   \<and> checkMinMaxValues sampleToNumber ''2'' raisedMin existingRange sampleChars \<noteq> sampleChars"
  by (simp add: existingRange_def raisedMin_def checkMinMaxValues_def removeCharacterPremises_def
      sampleChars_def clause_def)

section \<open>Media\<close>

lemma concat_map_if:
  "concat (map (\<lambda>x. if P x then [f x] else []) xs) = map f (filter P xs)"
  by (induction xs) auto

lemma concat_map_if_id:
  "concat (map (\<lambda>x. if P x then [x] else []) xs) = filter P xs"
  by (induction xs) auto

text \<open>
  C8, as the code has it. The source compares the string form of an id with the entries of
  the removal list, without converting the entries. For an entity whose media list is set
  and a removal list whose entries are string forms of media ids of the entity,
  \<open>removeEntityMedia\<close> succeeds; the entity's media list becomes the string forms of its
  ids without the requested ones, in order, so its ids are exactly the old ids, as
  strings, minus the requested ones; the media elements of the revision become those
  whose id, as a string, is not requested; and the persons list, like every other
  property of the entity and of the revision media, is untouched.
\<close>

theorem removeEntityMedia_removes_exactly:
  assumes "media ent = Some ms"
    and "set bodyMedia \<subseteq> (\<lambda>m. JStr (toString m)) ` set ms"
  shows "\<exists>ms' es'. removeEntityMedia ent med bodyMedia
            = Inr (ent\<lparr>media := Some ms'\<rparr>, med\<lparr>mediaElements := Some es'\<rparr>)
       \<and> set ms' = (\<lambda>m. JStr (toString m)) ` set ms - set bodyMedia
       \<and> set ms' \<union> set bodyMedia = (\<lambda>m. JStr (toString m)) ` set ms
       \<and> ms' = filter (\<lambda>v. v \<notin> set bodyMedia) (map (\<lambda>m. JStr (toString m)) ms)
       \<and> es' = filter (\<lambda>e. JStr (toString (me_id e)) \<notin> set bodyMedia)
                 (case mediaElements med of Some es \<Rightarrow> es | None \<Rightarrow> [])
       \<and> persons (med\<lparr>mediaElements := Some es'\<rparr>) = persons med"
  using assms
  by (auto simp: removeEntityMedia_def Let_def filter_map comp_def concat_map_if concat_map_if_id
      split: option.splits)

theorem removeEntityMedia_removes_exactly_witness:
  "media sampleEntity = Some [JNum 5, JStr ''6'', JNum 7]
   \<and> set [JStr ''5'', JStr ''7''] \<subseteq> (\<lambda>m. JStr (toString m)) ` set [JNum 5, JStr ''6'', JNum 7]
   \<and> removeEntityMedia sampleEntity sampleMedia [JStr ''5'', JStr ''7'']
       = Inr (\<lparr>media = Some [JStr ''6'']\<rparr>,
              \<lparr>mediaElements = Some [\<lparr>me_id = JStr ''6'', me_license = None, me_creators = None\<rparr>],
               persons = Some [\<lparr>person_id = ''ann'', person_name = ''Ann''\<rparr>]\<rparr>)"
proof -
  have m: "media sampleEntity = Some [JNum 5, JStr ''6'', JNum 7]"
    by (simp add: sampleEntity_def)
  have s: "set [JStr ''5'', JStr ''7''] \<subseteq> (\<lambda>m. JStr (toString m)) ` set [JNum 5, JStr ''6'', JNum 7]"
    by (simp add: string_of_int_def string_of_nat.simps)
  from removeEntityMedia_removes_exactly [OF m s, of sampleMedia]
  show ?thesis using m s
    by (auto simp: sampleEntity_def sampleMedia_def string_of_int_def string_of_nat.simps)
qed

text \<open>
  C8 as stated fails where the entity's media ids are numbers, as they are for a taxon
  and a character. The removal list \<open>[5, 7]\<close> is a subset of the media ids
  \<open>[5, ''6'', 7]\<close> of the entity, yet no id is removed from the entity's list, and the
  ids 5 and 7, which stay, come back as the strings \<open>''5''\<close> and \<open>''7''\<close>; no media
  element is removed either.
\<close>

theorem removeEntityMedia_numeric_request_counterexample:
  "media sampleEntity = Some [JNum 5, JStr ''6'', JNum 7]
   \<and> set [JNum 5, JNum 7] \<subseteq> set [JNum 5, JStr ''6'', JNum 7]
   \<and> removeEntityMedia sampleEntity sampleMedia [JNum 5, JNum 7]
       = Inr (\<lparr>media = Some [JStr ''5'', JStr ''6'', JStr ''7'']\<rparr>, sampleMedia)"
  by (simp add: removeEntityMedia_def sampleEntity_def sampleMedia_def string_of_int_def
      string_of_nat.simps)

lemma map_of_filter_neq:
  "map_of (filter (\<lambda>(q, s). q \<noteq> p) fs) t = (if t = p then None else map_of fs t)"
  by (induction fs) auto

text \<open>
  C9, as the code has it. \<open>deleteMediaFile\<close> resolves exactly when every unlink that
  it attempts succeeds: the primary file, when the path is set, is there and removable,
  and so is the thumbnail (which is gone when it has the path of the primary file). Then
  the MediaInfo rows and the Media row are destroyed. Any error of an unlink, a missing
  file (ENOENT) included, rejects and leaves both tables as they were.
\<close>

theorem deleteMediaFile_any_error_aborts:
  assumes "deleteMediaFile m st = (r, st')"
  shows "(r = Inr () \<longleftrightarrow>
            (truthy (filePath m) \<longrightarrow> map_of (files st) (the (filePath m)) = Some Removable)
          \<and> (truthy (thumbnailPath m) \<longrightarrow>
                map_of (files st) (the (thumbnailPath m)) = Some Removable
                \<and> \<not> (truthy (filePath m) \<and> the (filePath m) = the (thumbnailPath m))))
       \<and> (r = Inr () \<longrightarrow>
             mediaTable st' = filter (\<lambda>row. media_id row \<noteq> media_id m) (mediaTable st)
           \<and> mediaInfoTable st' = filter (\<lambda>row. mi_mediaId row \<noteq> media_id m) (mediaInfoTable st))
       \<and> (r \<noteq> Inr () \<longrightarrow> mediaTable st' = mediaTable st \<and> mediaInfoTable st' = mediaInfoTable st)"
  using assms
  by (auto simp: deleteMediaFile_def unlinkPromise_def unlink_def Let_def map_of_filter_neq
      split: if_splits option.splits fileState.splits prod.splits sum.splits fsError.splits)

theorem deleteMediaFile_any_error_aborts_witness:
  "deleteMediaFile sampleMediaRow completeStore
     = (Inr (), \<lparr>files = [], mediaTable = [], mediaInfoTable = []\<rparr>)
   \<and> mediaTable (snd (deleteMediaFile sampleMediaRow missingFileStore)) = mediaTable missingFileStore
   \<and> fst (deleteMediaFile sampleMediaRow missingFileStore) \<noteq> Inr ()"
proof -
  obtain r st' where a: "deleteMediaFile sampleMediaRow completeStore = (r, st')"
    by (cases "deleteMediaFile sampleMediaRow completeStore")
  obtain r2 st2 where b: "deleteMediaFile sampleMediaRow missingFileStore = (r2, st2)"
    by (cases "deleteMediaFile sampleMediaRow missingFileStore")
  from deleteMediaFile_any_error_aborts [OF a]
  have "r = Inr ()" "mediaTable st' = []" "mediaInfoTable st' = []"
    by (simp_all add: sampleMediaRow_def completeStore_def truthy_def)
  moreover have "files st' = []"
    using a by (auto simp: deleteMediaFile_def unlinkPromise_def unlink_def Let_def
        sampleMediaRow_def completeStore_def truthy_def split: prod.splits)
  moreover from deleteMediaFile_any_error_aborts [OF b]
  have "r2 \<noteq> Inr ()" "mediaTable st2 = mediaTable missingFileStore"
    by (simp_all add: sampleMediaRow_def missingFileStore_def truthy_def)
  ultimately show ?thesis using a b by (cases st') simp
qed

text \<open>
  C9 as stated fails: the primary file of the media row is missing, the deletion rejects
  with ENOENT and the Media row and the MediaInfo row are still there.
\<close>

theorem deleteMedia_missing_file_counterexample:
  "map_of (files missingFileStore) ''a.jpg'' = None
   \<and> fst (deleteMedia 1 missingFileStore) = Inl (FsError ENOENT)
   \<and> mediaTable (snd (deleteMedia 1 missingFileStore)) = [sampleMediaRow]
   \<and> mediaInfoTable (snd (deleteMedia 1 missingFileStore)) = [\<lparr>mi_id = 1, mi_mediaId = 1\<rparr>]"
  by (simp add: deleteMedia_def deleteMediaFile_def unlinkPromise_def unlink_def Let_def
      sampleMediaRow_def missingFileStore_def truthy_def)

section \<open>The taxon tree\<close>

lemma nodeAt_Cons_Suc: "nodeAt (e # arr) (Suc j # q) = nodeAt arr (j # q)"
  by (cases q) auto

lemma nodeAt_Cons_0: "q \<noteq> [] \<Longrightarrow>
    nodeAt (e # arr) (0 # q) = (case children e of Some ch \<Rightarrow> nodeAt ch q | None \<Rightarrow> None)"
  by (cases q) auto

lemma nodeAt_in_allNodes: "nodeAt arr p = Some t \<Longrightarrow> t \<in> set (allNodes arr)"
proof (induction arr arbitrary: p t rule: allNodes.induct)
  case 1
  then show ?case
  proof (cases p)
    case Nil
    with 1 show ?thesis by simp
  next
    case (Cons k q)
    with 1 show ?thesis by (cases q) auto
  qed
next
  case (2 element rest)
  show ?case
  proof (cases p)
    case Nil
    with "2.prems" show ?thesis by simp
  next
    case (Cons k q)
    show ?thesis
    proof (cases k)
      case 0
      show ?thesis
      proof (cases q)
        case Nil
        with "2.prems" Cons 0 show ?thesis by simp
      next
        case (Cons j q')
        with "2.prems" \<open>p = k # q\<close> 0 "2.IH"(1) show ?thesis
          by (auto split: option.splits)
      qed
    next
      case (Suc j)
      with "2.prems" Cons have "nodeAt rest (j # q) = Some t"
        by (simp add: nodeAt_Cons_Suc)
      with "2.IH"(2) show ?thesis by simp
    qed
  qed
qed

lemma findTaxonById_forEach_acc:
  "findTaxonById_forEach arr i k acc =
     (case findTaxonById_forEach arr i k None of Some r \<Rightarrow> Some r | None \<Rightarrow> acc)"
proof (induction arr arbitrary: k acc)
  case Nil
  then show ?case by simp
next
  case (Cons element rest)
  show ?case
    unfolding findTaxonById_forEach.simps
    by (subst Cons.IH, subst (2) Cons.IH) (simp split: option.splits)
qed

lemma findTaxonById_forEach_sound:
  "findTaxonById_forEach arr i k acc = Some (p, t) \<Longrightarrow>
     acc = Some (p, t) \<or>
     (taxon_id (props t) = i \<and> (\<exists>j q. p = (k + j) # q \<and> nodeAt arr (j # q) = Some t))"
proof (induction arr i k acc arbitrary: p t rule: findTaxonById_forEach.induct)
  case (1 i k taxon)
  then show ?case by simp
next
  case (2 element rest i k taxon)
  let ?acc' = "if taxon_id (props element) = i then Some ([k], element)
        else case children element of
               Some ch \<Rightarrow>
                 (case findTaxonById_forEach ch i 0 None of
                    Some (p, tmp) \<Rightarrow> Some (k # p, tmp)
                  | None \<Rightarrow> taxon)
             | None \<Rightarrow> taxon"
  from "2.prems" have run: "findTaxonById_forEach rest i (Suc k) ?acc' = Some (p, t)" by simp
  from "2.IH"(2)[OF run] consider
      (acc) "?acc' = Some (p, t)"
    | (rest) j q where "taxon_id (props t) = i" "p = (Suc k + j) # q" "nodeAt rest (j # q) = Some t"
    by blast
  then show ?case
  proof cases
    case rest
    then have "p = (k + Suc j) # q" "nodeAt (element # rest) (Suc j # q) = Some t"
      by (simp_all add: nodeAt_Cons_Suc)
    with rest(1) show ?thesis by blast
  next
    case acc
    show ?thesis
    proof (cases "taxon_id (props element) = i")
      case True
      with acc have "p = (k + 0) # []" "t = element" by simp_all
      moreover have "nodeAt (element # rest) (0 # []) = Some element" by simp
      ultimately show ?thesis using True by blast
    next
      case False
      show ?thesis
      proof (cases "children element")
        case None
        with acc False show ?thesis by simp
      next
        case (Some ch)
        show ?thesis
        proof (cases "findTaxonById_forEach ch i 0 None")
          case None
          with acc False Some show ?thesis by simp
        next
          case (Some r)
          obtain p' tmp where r: "r = (p', tmp)" by (cases r)
          from "2.IH"(1)[OF False \<open>children element = Some ch\<close>, of p' tmp] Some r
          obtain j q where in_ch: "taxon_id (props tmp) = i" "p' = j # q" "nodeAt ch (j # q) = Some tmp"
            by auto
          from acc False \<open>children element = Some ch\<close> Some r
          have "p = k # p'" "t = tmp" by simp_all
          with in_ch \<open>children element = Some ch\<close>
          have "p = (k + 0) # (j # q)" "nodeAt (element # rest) (0 # (j # q)) = Some t"
            by (simp_all add: nodeAt_Cons_0)
          with in_ch(1) \<open>t = tmp\<close> show ?thesis by blast
        qed
      qed
    qed
  qed
qed

lemma findTaxonById_sound:
  assumes "findTaxonById arr i = Some (p, t)"
  shows "taxon_id (props t) = i" and "nodeAt arr p = Some t" and "p \<noteq> []"
    and "t \<in> set (allNodes arr)"
proof -
  from findTaxonById_forEach_sound[of arr i 0 None p t] assms
  obtain j q where *: "taxon_id (props t) = i" "p = j # q" "nodeAt arr (j # q) = Some t"
    by (auto simp: findTaxonById_def)
  then show "taxon_id (props t) = i" "nodeAt arr p = Some t" "p \<noteq> []" by simp_all
  then show "t \<in> set (allNodes arr)" by (simp add: nodeAt_in_allNodes)
qed

lemma findTaxonById_absent:
  "\<forall>t \<in> set (allNodes arr). taxon_id (props t) \<noteq> i \<Longrightarrow> findTaxonById arr i = None"
  using findTaxonById_sound(1,4)[of arr i] by (cases "findTaxonById arr i") auto

lemma findTaxonByName_forEach_acc:
  "findTaxonByName_forEach arr name acc =
     (case findTaxonByName_forEach arr name None of Some t \<Rightarrow> Some t | None \<Rightarrow> acc)"
proof (induction arr arbitrary: acc)
  case Nil
  then show ?case by simp
next
  case (Cons element rest)
  show ?case
    unfolding findTaxonByName_forEach.simps
    by (subst Cons.IH, subst (2) Cons.IH) (simp split: option.splits)
qed

lemma findTaxonByName_forEach_sound:
  "findTaxonByName_forEach arr name acc = Some t \<Longrightarrow>
     acc = Some t \<or> (t \<in> set (allNodes arr) \<and> upperName t = toUpperCase name)"
proof (induction arr name acc arbitrary: t rule: findTaxonByName_forEach.induct)
  case (1 name taxon)
  then show ?case by simp
next
  case (2 element rest name taxon)
  from "2.prems" "2.IH"(2)[of t] "2.IH"(1)
  show ?case
    by (fastforce simp: upperName_def split: option.splits if_splits)
qed

lemma findTaxonByName_forEach_complete:
  "x \<in> set (allNodes arr) \<Longrightarrow> upperName x = toUpperCase name \<Longrightarrow>
     findTaxonByName_forEach arr name acc \<noteq> None"
proof (induction arr name acc rule: findTaxonByName_forEach.induct)
  case (1 name taxon)
  then show ?case by simp
next
  case (2 element rest name taxon)
  show ?case
  proof (cases "x \<in> set (allNodes rest)")
    case True
    with 2 show ?thesis by simp
  next
    case False
    have keep: "\<And>a. findTaxonByName_forEach rest name (Some a) \<noteq> None"
      by (subst findTaxonByName_forEach_acc) (simp split: option.splits)
    from False "2.prems" have "x = element \<or>
        (\<exists>ch. children element = Some ch \<and> x \<in> set (allNodes ch))"
      by (auto split: option.splits)
    then show ?thesis
    proof
      assume "x = element"
      with "2.prems" keep show ?thesis by (simp add: upperName_def)
    next
      assume "\<exists>ch. children element = Some ch \<and> x \<in> set (allNodes ch)"
      then obtain ch where ch: "children element = Some ch" "x \<in> set (allNodes ch)" by blast
      show ?thesis
      proof (cases "toUpperCase (scientificName (props element)) = toUpperCase name")
        case True
        with keep show ?thesis by simp
      next
        case False
        with "2.IH"(1)[OF False ch(1) ch(2) "2.prems"(2)] ch keep
        show ?thesis by (auto split: option.splits)
      qed
    qed
  qed
qed

text \<open>With unique names the search by name finds the one node that has the name.\<close>

lemma findTaxonByName_forEach_unique:
  assumes "uniqueNames arr" and "x \<in> set (allNodes arr)" and "upperName x = toUpperCase name"
  shows "findTaxonByName_forEach arr name None = Some x"
proof -
  from findTaxonByName_forEach_complete[OF assms(2,3)]
  obtain t where t: "findTaxonByName_forEach arr name None = Some t" by blast
  from findTaxonByName_forEach_sound[OF t]
  have "t \<in> set (allNodes arr)" "upperName t = upperName x" using assms(3) by simp_all
  with assms(1,2) have "t = x"
    by (auto simp: uniqueNames_def distinct_map dest: inj_onD)
  with t show ?thesis by simp
qed

lemma allNodes_append: "allNodes (xs @ ys) = allNodes xs @ allNodes ys"
  by (induction xs) auto

lemma allNodes_update:
  assumes "k < length arr"
    and "map nodeLabel (allNodes [e]) = map nodeLabel (allNodes [arr ! k])"
  shows "map nodeLabel (allNodes (arr[k := e])) = map nodeLabel (allNodes arr)"
proof -
  have "arr[k := e] = take k arr @ [e] @ drop (Suc k) arr"
    using assms(1) by (simp add: upd_conv_take_nth_drop)
  moreover have "arr = take k arr @ [arr ! k] @ drop (Suc k) arr"
    using assms(1) by (simp add: id_take_nth_drop)
  ultimately show ?thesis
    using assms(2) by (metis allNodes_append map_append)
qed

lemma nodeLabel_Taxon_props: "nodeLabel (Taxon (props x) c) = nodeLabel x"
  by (simp add: nodeLabel_def)

lemma updateAt_labels:
  "nodeAt arr p = Some t \<Longrightarrow> nodeLabel (f t) = nodeLabel t \<Longrightarrow> children (f t) = children t \<Longrightarrow>
     map nodeLabel (allNodes (updateAt arr p f)) = map nodeLabel (allNodes arr)"
proof (induction arr p arbitrary: t rule: nodeAt.induct)
  case (1 arr)
  then show ?case by simp
next
  case (2 arr k)
  then have k: "k < length arr" and t: "arr ! k = t" by (auto split: if_splits)
  from 2 t have "map nodeLabel (allNodes [f (arr ! k)]) = map nodeLabel (allNodes [arr ! k])"
    by simp
  from allNodes_update[OF k this] k show ?case by simp
next
  case (3 arr k j q)
  from "3.prems"(1) obtain ch where k: "k < length arr" and ch: "children (arr ! k) = Some ch"
    and at: "nodeAt ch (j # q) = Some t"
    by (auto split: if_splits option.splits)
  from "3.IH"[OF k ch at "3.prems"(2,3)]
  have "map nodeLabel (allNodes [Taxon (props (arr ! k)) (Some (updateAt ch (j # q) f))])
      = map nodeLabel (allNodes [arr ! k])"
    using ch by (simp add: nodeLabel_Taxon_props)
  from allNodes_update[OF k this] k ch show ?case by simp
qed

lemma updateAt_nodeAt:
  "nodeAt arr p = Some t \<Longrightarrow> nodeAt (updateAt arr p f) p = Some (f t)"
proof (induction arr p arbitrary: t rule: nodeAt.induct)
  case (1 arr)
  then show ?case by simp
next
  case (2 arr k)
  then show ?case by (auto split: if_splits)
next
  case (3 arr k j q)
  from "3.prems"(1) obtain ch where k: "k < length arr" and ch: "children (arr ! k) = Some ch"
    and at: "nodeAt ch (j # q) = Some t"
    by (auto split: if_splits option.splits)
  from "3.IH"[OF k ch at] k ch show ?case by simp
qed

lemma updateAt_length: "length (updateAt arr p f) = length arr"
  by (induction arr p f rule: updateAt.induct) (auto split: option.splits)

lemma set_parentId_simps:
  "nodeLabel (set_parentId v t) = nodeLabel t" "children (set_parentId v t) = children t"
  "taxon_id (props (set_parentId v t)) = taxon_id (props t)"
  "scientificName (props (set_parentId v t)) = scientificName (props t)"
  "taxon_parentId (props (set_parentId v t)) = v"
  by (simp_all add: set_parentId_def nodeLabel_def)

text \<open>
  The search with \<^verbatim>\<open>include\<close> finds the node that the plain search finds, at the same
  path; it changes no id, no name and no nesting.
\<close>

lemma findTaxonById_include_forEach_spec:
  "findTaxonById_include_forEach arr i k acc = (arr', r) \<Longrightarrow>
     map nodeLabel (allNodes arr') = map nodeLabel (allNodes arr) \<and> length arr' = length arr \<and>
     (case findTaxonById_forEach arr i k None of
        None \<Rightarrow> r = acc
      | Some (p, t) \<Rightarrow>
          \<exists>t' j q. r = Some (p, t') \<and> nodeLabel t' = nodeLabel t \<and> children t' = children t
                  \<and> p = (k + j) # q \<and> nodeAt arr' (j # q) = Some t')"
proof (induction arr arbitrary: k acc arr' r)
  case Nil
  then show ?case by simp
next
  case (Cons e rest)
  define a0 where "a0 = (if taxon_id (props e) = i then Some ([k], e)
        else case children e of
               Some ch \<Rightarrow>
                 (case findTaxonById_forEach ch i 0 None of
                    Some (p, tmp) \<Rightarrow> Some (k # p, tmp)
                  | None \<Rightarrow> None)
             | None \<Rightarrow> None)"
  have F: "findTaxonById_forEach (e # rest) i k None =
      (case findTaxonById_forEach rest i (Suc k) None of Some x \<Rightarrow> Some x | None \<Rightarrow> a0)"
    unfolding findTaxonById_forEach.simps a0_def
    by (subst findTaxonById_forEach_acc) (auto split: option.splits)
  \<comment> \<open>the element after the step, and the accumulator after the step\<close>
  obtain e' acc' where step:
    "findTaxonById_include_forEach (e # rest) i k acc =
       (let (rest', r) = findTaxonById_include_forEach rest i (Suc k) acc' in (e' # rest', r))"
    "map nodeLabel (allNodes [e']) = map nodeLabel (allNodes [e])"
    "case a0 of None \<Rightarrow> acc' = acc
     | Some (p, t) \<Rightarrow> \<exists>t' q. acc' = Some (p, t') \<and> nodeLabel t' = nodeLabel t
           \<and> children t' = children t \<and> p = k # q \<and> nodeAt [e'] (0 # q) = Some t'"
  proof (cases "taxon_id (props e) = i")
    case True
    show ?thesis
      by (rule that[of "Some ([k], e)" e]) (use True in \<open>simp_all add: a0_def\<close>)
  next
    case False
    show ?thesis
    proof (cases "children e")
      case None
      show ?thesis
        by (rule that[of acc e]) (use False None in \<open>simp_all add: a0_def\<close>)
    next
      case (Some ch)
      show ?thesis
      proof (cases "findTaxonById ch i")
        case None
        show ?thesis
          by (rule that[of acc e])
            (use False Some None in \<open>simp_all add: a0_def findTaxonById_def\<close>)
      next
        case found: (Some pt)
        obtain p0 tmp where pt: "pt = (p0, tmp)" by (cases pt)
        from findTaxonById_sound[of ch i p0 tmp] found pt
        have at: "nodeAt ch p0 = Some tmp" and ne: "p0 \<noteq> []" by simp_all
        let ?tmp' = "set_parentId (Some (taxon_id (props e))) tmp"
        let ?e' = "Taxon (props e) (Some (updateAt ch p0 (\<lambda>_. ?tmp')))"
        have lab: "map nodeLabel (allNodes (updateAt ch p0 (\<lambda>_. ?tmp'))) = map nodeLabel (allNodes ch)"
          by (rule updateAt_labels[OF at]) (simp_all add: set_parentId_simps)
        show ?thesis
        proof (rule that[of "Some (k # p0, ?tmp')" ?e'])
          show "findTaxonById_include_forEach (e # rest) i k acc =
              (let (rest', r) = findTaxonById_include_forEach rest i (Suc k) (Some (k # p0, ?tmp'))
               in (?e' # rest', r))"
            using False Some found pt by (simp add: Let_def)
          show "map nodeLabel (allNodes [?e']) = map nodeLabel (allNodes [e])"
            using lab Some by (simp add: nodeLabel_Taxon_props)
          show "case a0 of None \<Rightarrow> Some (k # p0, ?tmp') = acc
             | Some (p, t) \<Rightarrow> \<exists>t' q. Some (k # p0, ?tmp') = Some (p, t') \<and> nodeLabel t' = nodeLabel t
                 \<and> children t' = children t \<and> p = k # q \<and> nodeAt [?e'] (0 # q) = Some t'"
            using False Some found pt ne updateAt_nodeAt[OF at, of "\<lambda>_. ?tmp'"]
            by (simp add: a0_def findTaxonById_def set_parentId_simps nodeAt_Cons_0)
        qed
      qed
    qed
  qed
  obtain rest' where run: "findTaxonById_include_forEach rest i (Suc k) acc' = (rest', r)"
    and arr': "arr' = e' # rest'"
    using Cons.prems unfolding step(1) by (auto simp: Let_def split: prod.splits)
  note IH = Cons.IH[OF run]
  have labels: "map nodeLabel (allNodes arr') = map nodeLabel (allNodes (e # rest))"
    using IH step(2) arr' by simp
  have len: "length arr' = length (e # rest)" using IH arr' by simp
  have res: "case findTaxonById_forEach (e # rest) i k None of
        None \<Rightarrow> r = acc
      | Some (p, t) \<Rightarrow>
          \<exists>t' j q. r = Some (p, t') \<and> nodeLabel t' = nodeLabel t \<and> children t' = children t
                  \<and> p = (k + j) # q \<and> nodeAt arr' (j # q) = Some t'"
  proof (cases "findTaxonById_forEach rest i (Suc k) None")
    case None
    with IH have r: "r = acc'" by simp
    show ?thesis
    proof (cases a0)
      case None
      with \<open>findTaxonById_forEach rest i (Suc k) None = None\<close> F step(3) r show ?thesis by simp
    next
      case (Some pt)
      obtain p t where pt: "pt = (p, t)" by (cases pt)
      from step(3) Some pt obtain t' q where
        *: "acc' = Some (p, t')" "nodeLabel t' = nodeLabel t" "children t' = children t"
           "p = k # q" "nodeAt [e'] (0 # q) = Some t'"
        by auto
      have "nodeAt arr' (0 # q) = Some t'"
        using *(5) arr' by (cases q) (auto split: if_splits)
      with * r have "\<exists>t' j q. r = Some (p, t') \<and> nodeLabel t' = nodeLabel t \<and> children t' = children t
                  \<and> p = (k + j) # q \<and> nodeAt arr' (j # q) = Some t'"
        by (intro exI[of _ t'] exI[of _ 0] exI[of _ q]) simp
      with \<open>findTaxonById_forEach rest i (Suc k) None = None\<close> F Some pt show ?thesis by simp
    qed
  next
    case (Some pt)
    obtain p t where pt: "pt = (p, t)" by (cases pt)
    from IH Some pt obtain t' j q where
      *: "r = Some (p, t')" "nodeLabel t' = nodeLabel t" "children t' = children t"
         "p = (Suc k + j) # q" "nodeAt rest' (j # q) = Some t'"
      by auto
    have "nodeAt arr' (Suc j # q) = Some t'" using *(5) arr' by (simp add: nodeAt_Cons_Suc)
    with * have "\<exists>t' j q. r = Some (p, t') \<and> nodeLabel t' = nodeLabel t \<and> children t' = children t
                  \<and> p = (k + j) # q \<and> nodeAt arr' (j # q) = Some t'"
      by (intro exI[of _ t'] exI[of _ "Suc j"] exI[of _ q]) simp
    with Some pt F show ?thesis by simp
  qed
  from labels len res show ?case by blast
qed

lemma findTaxonById_include_spec:
  assumes "findTaxonById_include arr i = (arr', r)"
  shows "map nodeLabel (allNodes arr') = map nodeLabel (allNodes arr)"
    and "findTaxonById arr i = None \<Longrightarrow> r = None"
    and "findTaxonById arr i = Some (p, t) \<Longrightarrow>
           \<exists>t'. r = Some (p, t') \<and> nodeLabel t' = nodeLabel t \<and> children t' = children t
                \<and> nodeAt arr' p = Some t'"
  using findTaxonById_include_forEach_spec[of arr i 0 None arr' r] assms
  by (auto simp: findTaxonById_include_def findTaxonById_def)

lemma createRevision_fresh:
  assumes "newId \<notin> rev_id ` set (revisionTable db)"
  shows "\<exists>k' db'. createRevision d newId k c m u note mode db = Inr (newId, k', db')
           \<and> (\<exists>r. Revision_findByPk db' newId = Some r \<and> rev_content r = c \<and> rev_media r = m)
           \<and> Revisions_findOne db' newId (key_id k) \<noteq> None
           \<and> taxonTable db' = taxonTable db"
  using assms
  by (auto simp: createRevision_def Revision_create_def Let_def Revision_findByPk_def
      Revisions_findOne_def Key_updateRevisionId_def Revision_updateStatus_def
      find_append find_status_same find_fresh split: option.splits)

lemma string_of_nat_nonempty: "string_of_nat n \<noteq> []"
  by (subst string_of_nat.simps) simp

lemma string_of_int_nonempty: "string_of_int n \<noteq> []"
  by (simp add: string_of_int_def string_of_nat_nonempty)

lemma upperName_label: "upperName t = toUpperCase (snd (nodeLabel t))"
  by (simp add: upperName_def nodeLabel_def)

lemma uniqueNames_labels:
  assumes "map nodeLabel (allNodes a) = map nodeLabel (allNodes b)"
  shows "uniqueNames a = uniqueNames b"
proof -
  have u: "map upperName xs = map (\<lambda>l. toUpperCase (snd l)) (map nodeLabel xs)" for xs
    by (simp add: upperName_label)
  show ?thesis unfolding uniqueNames_def u assms ..
qed

lemma label_transfer:
  assumes "map nodeLabel (allNodes a) = map nodeLabel (allNodes b)" and "n \<in> set (allNodes b)"
  shows "\<exists>n' \<in> set (allNodes a). nodeLabel n' = nodeLabel n"
proof -
  from assms(2) have "nodeLabel n \<in> set (map nodeLabel (allNodes b))" by simp
  with assms(1) have "nodeLabel n \<in> set (map nodeLabel (allNodes a))" by simp
  then show ?thesis by auto
qed

section \<open>Renaming a taxon\<close>

text \<open>
  C7. When \<open>modifyTaxonNames\<close> detects a rename conflict (the search by name, ignoring
  the taxon's own id, finds a taxon), it returns false and leaves the scientific name, the
  id and the children of the taxon as they are, yet every vernacular name and description
  that the request supplies is written to the taxon; a name or description of which the
  request supplies neither language stays as it is.
\<close>

theorem modifyTaxonNames_conflict_partial_write:
  assumes "body_scientificName body \<noteq> []"
    and "findTaxonByName taxa (body_scientificName body) (Some taxonId) \<noteq> None"
  shows "fst (modifyTaxonNames taxon taxonId taxa body) = False
     \<and> scientificName (props (snd (modifyTaxonNames taxon taxonId taxa body)))
         = scientificName (props taxon)
     \<and> taxon_id (props (snd (modifyTaxonNames taxon taxonId taxa body))) = taxon_id (props taxon)
     \<and> children (snd (modifyTaxonNames taxon taxonId taxa body)) = children taxon
     \<and> (truthy (body_vernacularNameNo body) \<longrightarrow>
          (\<exists>v. vernacularName (props (snd (modifyTaxonNames taxon taxonId taxa body))) = Some v
              \<and> text_no v = body_vernacularNameNo body))
     \<and> (truthy (body_vernacularNameEn body) \<longrightarrow>
          (\<exists>v. vernacularName (props (snd (modifyTaxonNames taxon taxonId taxa body))) = Some v
              \<and> text_en v = body_vernacularNameEn body))
     \<and> (truthy (body_descriptionNo body) \<longrightarrow>
          (\<exists>v. description (props (snd (modifyTaxonNames taxon taxonId taxa body))) = Some v
              \<and> text_no v = body_descriptionNo body))
     \<and> (truthy (body_descriptionEn body) \<longrightarrow>
          (\<exists>v. description (props (snd (modifyTaxonNames taxon taxonId taxa body))) = Some v
              \<and> text_en v = body_descriptionEn body))
     \<and> (\<not> truthy (body_vernacularNameNo body) \<and> \<not> truthy (body_vernacularNameEn body) \<longrightarrow>
          vernacularName (props (snd (modifyTaxonNames taxon taxonId taxa body)))
            = vernacularName (props taxon))
     \<and> (\<not> truthy (body_descriptionNo body) \<and> \<not> truthy (body_descriptionEn body) \<longrightarrow>
          description (props (snd (modifyTaxonNames taxon taxonId taxa body)))
            = description (props taxon))"
  using assms
  by (simp add: modifyTaxonNames_def Let_def split: option.splits)

theorem modifyTaxonNames_conflict_partial_write_witness:
  "body_scientificName (sampleBody\<lparr>body_scientificName := ''aves''\<rparr>) \<noteq> []
   \<and> findTaxonByName sampleTaxa ''aves'' (Some ''3'') \<noteq> None
   \<and> modifyTaxonNames (taxonNode ''3'' ''Corvidae'' None) ''3'' sampleTaxa
        (sampleBody\<lparr>body_scientificName := ''aves''\<rparr>)
      = (False, Taxon \<lparr>taxon_id = ''3'', scientificName = ''Corvidae'',
                        vernacularName = Some \<lparr>text_no = Some ''kraakefugler'', text_en = None\<rparr>,
                        description = Some \<lparr>text_no = None, text_en = Some ''crows and jays''\<rparr>,
                        taxon_parentId = None\<rparr> None)"
proof -
  let ?b = "sampleBody\<lparr>body_scientificName := ''aves''\<rparr>"
  let ?t = "taxonNode ''3'' ''Corvidae'' None"
  have n: "body_scientificName ?b \<noteq> []" by (simp add: sampleBody_def)
  have c: "findTaxonByName sampleTaxa (body_scientificName ?b) (Some ''3'') \<noteq> None"
    by (simp add: sampleBody_def findTaxonByName_def sampleTaxa_def taxonNode_def
        toUpperCase_def truthy_def)
  obtain valid t' where r: "modifyTaxonNames ?t ''3'' sampleTaxa ?b = (valid, t')"
    by (cases "modifyTaxonNames ?t ''3'' sampleTaxa ?b")
  obtain pr ch where t': "t' = Taxon pr ch" by (cases t')
  from modifyTaxonNames_conflict_partial_write [OF n c, of ?t] r t'
  have "valid = False" "scientificName pr = ''Corvidae''" "taxon_id pr = ''3''" "ch = None"
    "\<exists>v. vernacularName pr = Some v \<and> text_no v = Some ''kraakefugler''"
    "\<exists>v. description pr = Some v \<and> text_en v = Some ''crows and jays''"
    by (simp_all add: taxonNode_def sampleBody_def truthy_def)
  moreover have "taxon_parentId pr = None"
    "\<forall>v. vernacularName pr = Some v \<longrightarrow> text_en v = None"
    "\<forall>v. description pr = Some v \<longrightarrow> text_no v = None"
    using r t'
    by (auto simp: modifyTaxonNames_def Let_def taxonNode_def sampleBody_def truthy_def
        split: option.splits if_splits)
  ultimately have "pr = \<lparr>taxon_id = ''3'', scientificName = ''Corvidae'',
                        vernacularName = Some \<lparr>text_no = Some ''kraakefugler'', text_en = None\<rparr>,
                        description = Some \<lparr>text_no = None, text_en = Some ''crows and jays''\<rparr>,
                        taxon_parentId = None\<rparr>"
    by (cases pr) auto
  with r t' \<open>valid = False\<close> \<open>ch = None\<close> n c show ?thesis
    by (simp add: sampleBody_def)
qed

lemma findTaxonByName_no_ignore:
  "findTaxonByName arr name None = findTaxonByName_forEach arr name None"
  by (simp add: findTaxonByName_def truthy_def split: option.splits)

lemma findTaxonByName_holder:
  assumes "n \<in> set (allNodes arr)" and "upperName n = toUpperCase name"
  shows "findTaxonByName arr name None \<noteq> None"
  using findTaxonByName_forEach_complete[OF assms] by (simp add: findTaxonByName_no_ignore)

lemma findTaxonByName_unused:
  assumes "\<forall>t \<in> set (allNodes arr). upperName t \<noteq> toUpperCase name"
  shows "findTaxonByName arr name None = None"
  using findTaxonByName_forEach_sound[of arr name None] assms
  by (cases "findTaxonByName_forEach arr name None") (auto simp: findTaxonByName_no_ignore)

lemma modifyTaxonNames_valid:
  "fst (modifyTaxonNames t tid arr body) =
     (\<not> (body_scientificName body \<noteq> []
          \<and> findTaxonByName arr (body_scientificName body) (Some tid) \<noteq> None))"
  by (simp add: modifyTaxonNames_def Let_def)

text \<open>
  With unique names, the search that ignores an id finds the holder of the name unless
  the holder has that id.
\<close>

lemma findTaxonByName_ignoring:
  assumes "uniqueNames arr" and "n \<in> set (allNodes arr)" and "upperName n = toUpperCase name"
    and "ig \<noteq> []"
  shows "findTaxonByName arr name (Some ig) = (if taxon_id (props n) = ig then None else Some n)"
  using findTaxonByName_forEach_unique[OF assms(1-3)] assms(4)
  by (simp add: findTaxonByName_def truthy_def)

lemma find_taxonRow_fresh:
  "i \<notin> taxonRow_id ` set rows \<Longrightarrow> find (\<lambda>r. taxonRow_id r = i) rows = None"
  by (induction rows) auto

section \<open>The taxon routes\<close>

text \<open>
  C10. A create-taxon request for an existing key and revision, with a new scientific
  name and a truthy \<open>parentId\<close> whose string form is the id of no node of the tree,
  succeeds when the store accepts the generated ids: the answer is 200 with the id of
  the new revision and the id of the new taxon, the Taxon row is there, the new revision is
  there and is linked to the key, and the taxa of the new revision are the taxa of the old
  one: the new taxon is nowhere in the tree, because \<open>addToParent\<close> returns the tree as
  it is when no node has the parent's id.
\<close>

theorem postTaxon_unknown_parent_not_inserted:
  fixes db :: "('x content_scheme, 'm) database"
  assumes found: "findRevisionForKey (body_revisionId body) (body_keyId body) db
                    = Inr (revision, Some k)"
    and tree: "tree = (case content_taxa (rev_content revision) of Some t \<Rightarrow> t | None \<Rightarrow> [])"
    and newName: "\<forall>t \<in> set (allNodes tree). upperName t \<noteq> toUpperCase (body_scientificName body)"
    and parent: "body_parentId body = Some parentId" "truthyVal parentId"
    and unknown: "\<forall>t \<in> set (allNodes tree). taxon_id (props t) \<noteq> toString parentId"
    and fresh: "newTaxonId \<notin> taxonRow_id ` set (taxonTable db)"
               "newRevisionId \<notin> rev_id ` set (revisionTable db)"
  shows "\<exists>db'. postTaxon d newTaxonId newRevisionId user body db
                 = (200, Some (newRevisionId, string_of_int newTaxonId), db')
       \<and> Taxon_findByPk db' newTaxonId
           = Some \<lparr>taxonRow_id = newTaxonId, taxonRow_keyId = body_keyId body\<rparr>
       \<and> (\<exists>r. Revision_findByPk db' newRevisionId = Some r
              \<and> content_taxa (rev_content r) = Some tree)
       \<and> Revisions_findOne db' newRevisionId (key_id k) \<noteq> None
       \<and> (\<forall>newTaxon. addToParent tree newTaxon parentId = tree)"
proof -
  let ?row = "\<lparr>taxonRow_id = newTaxonId, taxonRow_keyId = body_keyId body\<rparr>"
  let ?db1 = "db\<lparr>taxonTable := taxonTable db @ [?row]\<rparr>"
  obtain vn ds where info: "setTaxonInfo body = (vn, ds)" by (cases "setTaxonInfo body")
  let ?new = "Taxon \<lparr>taxon_id = string_of_int newTaxonId,
                      scientificName = body_scientificName body, vernacularName = vn,
                      description = ds, taxon_parentId = None\<rparr> None"
  have name: "findTaxonByName tree (body_scientificName body) None = None"
    by (rule findTaxonByName_unused[OF newName])
  have create: "Taxon_create newTaxonId (body_keyId body) db = Inr (?row, ?db1)"
    using fresh(1) by (simp add: Taxon_create_def)
  have add: "addToParent tree ?new parentId = tree"
    using findTaxonById_absent[OF unknown] by (simp add: addToParent_def)
  have "newRevisionId \<notin> rev_id ` set (revisionTable ?db1)" using fresh(2) by simp
  from createRevision_fresh[OF this, of d k
      "(rev_content revision)\<lparr>content_taxa := Some tree\<rparr>" "rev_media revision" user
      "Some (''Created new taxon: '' @ body_scientificName body)" "Some (rev_mode revision)"]
  obtain k' db' where rev:
    "createRevision d newRevisionId k ((rev_content revision)\<lparr>content_taxa := Some tree\<rparr>)
       (rev_media revision) user (Some (''Created new taxon: '' @ body_scientificName body))
       (Some (rev_mode revision)) ?db1 = Inr (newRevisionId, k', db')"
    "\<exists>r. Revision_findByPk db' newRevisionId = Some r
        \<and> rev_content r = (rev_content revision)\<lparr>content_taxa := Some tree\<rparr>"
    "Revisions_findOne db' newRevisionId (key_id k) \<noteq> None"
    "taxonTable db' = taxonTable ?db1"
    by blast
  have "postTaxon d newTaxonId newRevisionId user body db
          = (200, Some (newRevisionId, string_of_int newTaxonId), db')"
    using found tree[symmetric] name info create parent add rev(1)
    by (simp add: postTaxon_def Let_def)
  moreover have "Taxon_findByPk db' newTaxonId = Some ?row"
    using rev(4) fresh(1) by (simp add: Taxon_findByPk_def find_append find_taxonRow_fresh)
  moreover have "\<exists>r. Revision_findByPk db' newRevisionId = Some r
              \<and> content_taxa (rev_content r) = Some tree"
    using rev(2) by auto
  moreover have "\<forall>newTaxon. addToParent tree newTaxon parentId = tree"
    using findTaxonById_absent[OF unknown] by (simp add: addToParent_def)
  ultimately show ?thesis using rev(3) by blast
qed

lemma Taxon_findByPk_id: "Taxon_findByPk db i = Some row \<Longrightarrow> taxonRow_id row = i"
  by (auto simp: Taxon_findByPk_def find_Some_iff)

lemma putTaxon_invalid:
  fixes db :: "('x content_scheme, 'm) database"
  assumes "findRevisionForKey (body_revisionId body) (body_keyId body) db = Inr (revision, Some k)"
    and "Taxon_findByPk db taxonId = Some row"
    and "content_taxa (rev_content revision) = Some tree"
    and "findTaxonById_include tree (string_of_int taxonId) = (tree1, Some (p, x))"
    and "fst (modifyTaxonNames x (string_of_int taxonId) tree1 body) = False"
  shows "putTaxon d newRevisionId taxonId user body db = (409, None, db)
       \<or> (body_parentId body \<noteq> None \<and> putTaxon d newRevisionId taxonId user body db = (500, None, db))"
proof -
  obtain valid x' where m: "modifyTaxonNames x (string_of_int taxonId) tree1 body = (valid, x')"
    by (cases "modifyTaxonNames x (string_of_int taxonId) tree1 body")
  with assms(5) have "valid = False" by simp
  with assms(1-4) m Taxon_findByPk_id[OF assms(2)] show ?thesis
    by (auto simp: putTaxon_def Let_def split: option.splits sum.splits error.splits)
qed

lemma putTaxon_valid_rename:
  fixes db :: "('x content_scheme, 'm) database"
  assumes "findRevisionForKey (body_revisionId body) (body_keyId body) db = Inr (revision, Some k)"
    and "Taxon_findByPk db taxonId = Some row"
    and "content_taxa (rev_content revision) = Some tree"
    and "findTaxonById_include tree (string_of_int taxonId) = (tree1, Some (p, x))"
    and "fst (modifyTaxonNames x (string_of_int taxonId) tree1 body) = True"
    and "body_parentId body = None"
    and "newRevisionId \<notin> rev_id ` set (revisionTable db)"
  shows "\<exists>db'. putTaxon d newRevisionId taxonId user body db = (200, Some newRevisionId, db')
           \<and> Revision_findByPk db' newRevisionId \<noteq> None"
proof -
  obtain valid x' where m: "modifyTaxonNames x (string_of_int taxonId) tree1 body = (valid, x')"
    by (cases "modifyTaxonNames x (string_of_int taxonId) tree1 body")
  with assms(5) have v: "valid = True" by simp
  let ?content = "(rev_content revision)\<lparr>content_taxa :=
      Some (updateAt (updateAt tree1 p (\<lambda>_. x')) p (set_parentId None)),
      content_statements := content_statements (rev_content revision)\<rparr>"
  from createRevision_fresh[OF assms(7), of d k ?content "rev_media revision" user
      "Some (''Updated taxon: '' @ body_scientificName body)" "Some (rev_mode revision)"]
  obtain k' db' where rev:
    "createRevision d newRevisionId k ?content (rev_media revision) user
       (Some (''Updated taxon: '' @ body_scientificName body)) (Some (rev_mode revision)) db
       = Inr (newRevisionId, k', db')"
    "\<exists>r. Revision_findByPk db' newRevisionId = Some r" by blast
  have "putTaxon d newRevisionId taxonId user body db = (200, Some newRevisionId, db')"
    using assms(1-4,6) m v rev(1) Taxon_findByPk_id[OF assms(2)]
    by (simp add: putTaxon_def Let_def)
  with rev(2) show ?thesis by auto
qed

text \<open>
  C6, as the code has it. For a key and revision that exist: creating a taxon whose
  scientific name equals, without regard to case, the name of a node of the tree answers
  409 and changes nothing, in every tree. In a tree whose names are unique without regard
  to case, renaming a taxon of the tree to the name of a node with another id answers 409
  and changes nothing (500 can take the place of 409 only when the request also moves
  the taxon), and renaming a taxon to its own current name, without moving it, answers 200
  with the new revision when the store accepts the generated id. The search by name
  treats a match whose id is the truthy \<open>ignoreId\<close> as not found.
\<close>

theorem taxon_names_stay_unique:
  fixes db :: "('x content_scheme, 'm) database"
  assumes found: "findRevisionForKey (body_revisionId body) (body_keyId body) db
                    = Inr (revision, Some k)"
    and tree: "content_taxa (rev_content revision) = Some tree"
  shows
   "((\<exists>n \<in> set (allNodes tree). upperName n = toUpperCase (body_scientificName body))
       \<longrightarrow> postTaxon d newTaxonId newRevisionId user body db = (409, None, db))
    \<and> (\<forall>row p x.
          uniqueNames tree \<and> Taxon_findByPk db taxonId = Some row
          \<and> findTaxonById tree (string_of_int taxonId) = Some (p, x)
          \<and> body_scientificName body \<noteq> [] \<longrightarrow>
            ((\<exists>n \<in> set (allNodes tree).
                 upperName n = toUpperCase (body_scientificName body)
                 \<and> taxon_id (props n) \<noteq> string_of_int taxonId)
               \<longrightarrow> putTaxon d newRevisionId taxonId user body db = (409, None, db)
                   \<or> (body_parentId body \<noteq> None
                       \<and> putTaxon d newRevisionId taxonId user body db = (500, None, db)))
          \<and> (body_scientificName body = scientificName (props x)
               \<and> body_parentId body = None
               \<and> newRevisionId \<notin> rev_id ` set (revisionTable db)
               \<longrightarrow> (\<exists>db'. putTaxon d newRevisionId taxonId user body db
                             = (200, Some newRevisionId, db')
                          \<and> Revision_findByPk db' newRevisionId \<noteq> None)))
    \<and> (\<forall>arr name ignoreId.
          findTaxonByName arr name (Some ignoreId) =
            (case findTaxonByName arr name None of
               None \<Rightarrow> None
             | Some t \<Rightarrow> if ignoreId \<noteq> [] \<and> taxon_id (props t) = ignoreId then None else Some t))"
proof (intro conjI allI impI)
  assume "\<exists>n \<in> set (allNodes tree). upperName n = toUpperCase (body_scientificName body)"
  then have "findTaxonByName tree (body_scientificName body) None \<noteq> None"
    using findTaxonByName_holder by blast
  with found tree show "postTaxon d newTaxonId newRevisionId user body db = (409, None, db)"
    by (auto simp: postTaxon_def Let_def)
next
  fix arr name ignoreId
  show "findTaxonByName arr name (Some ignoreId) =
            (case findTaxonByName arr name None of
               None \<Rightarrow> None
             | Some t \<Rightarrow> if ignoreId \<noteq> [] \<and> taxon_id (props t) = ignoreId then None else Some t)"
    by (simp add: findTaxonByName_def truthy_def split: option.splits)
next
  fix row p x
  assume a: "uniqueNames tree \<and> Taxon_findByPk db taxonId = Some row
          \<and> findTaxonById tree (string_of_int taxonId) = Some (p, x)
          \<and> body_scientificName body \<noteq> []"
  obtain tree1 r where inc: "findTaxonById_include tree (string_of_int taxonId) = (tree1, r)"
    by (cases "findTaxonById_include tree (string_of_int taxonId)")
  from findTaxonById_include_spec(3)[OF inc, of p x] a
  obtain x' where x': "r = Some (p, x')" "nodeLabel x' = nodeLabel x" "nodeAt tree1 p = Some x'"
    by blast
  note labels = findTaxonById_include_spec(1)[OF inc]
  have unique1: "uniqueNames tree1" using a uniqueNames_labels[OF labels] by simp
  have inc': "findTaxonById_include tree (string_of_int taxonId) = (tree1, Some (p, x'))"
    using inc x'(1) by simp
  {
    assume "\<exists>n \<in> set (allNodes tree).
                 upperName n = toUpperCase (body_scientificName body)
                 \<and> taxon_id (props n) \<noteq> string_of_int taxonId"
    then obtain n where n: "n \<in> set (allNodes tree)"
        "upperName n = toUpperCase (body_scientificName body)"
        "taxon_id (props n) \<noteq> string_of_int taxonId" by blast
    from label_transfer[OF labels n(1)] obtain n' where
      n': "n' \<in> set (allNodes tree1)" "nodeLabel n' = nodeLabel n" by blast
    then have "upperName n' = toUpperCase (body_scientificName body)"
      "taxon_id (props n') \<noteq> string_of_int taxonId"
      using n(2,3) by (simp_all add: upperName_label) (simp add: nodeLabel_def)
    with findTaxonByName_ignoring[OF unique1 n'(1) this(1) string_of_int_nonempty, of taxonId]
    have "findTaxonByName tree1 (body_scientificName body) (Some (string_of_int taxonId)) \<noteq> None"
      by simp
    with a have "fst (modifyTaxonNames x' (string_of_int taxonId) tree1 body) = False"
      by (simp add: modifyTaxonNames_valid)
    from putTaxon_invalid[OF found _ tree inc' this] a
    show "putTaxon d newRevisionId taxonId user body db = (409, None, db)
        \<or> (body_parentId body \<noteq> None
            \<and> putTaxon d newRevisionId taxonId user body db = (500, None, db))"
      by blast
  }
  {
    assume own: "body_scientificName body = scientificName (props x)
               \<and> body_parentId body = None
               \<and> newRevisionId \<notin> rev_id ` set (revisionTable db)"
    have in1: "x' \<in> set (allNodes tree1)" by (rule nodeAt_in_allNodes[OF x'(3)])
    have up: "upperName x' = toUpperCase (body_scientificName body)"
      using x'(2) own by (simp add: upperName_label) (simp add: nodeLabel_def)
    have "taxon_id (props x) = string_of_int taxonId"
      using findTaxonById_sound(1)[of tree "string_of_int taxonId" p x] a by simp
    with x'(2) have "taxon_id (props x') = string_of_int taxonId" by (simp add: nodeLabel_def)
    with findTaxonByName_ignoring[OF unique1 in1 up string_of_int_nonempty, of taxonId]
    have "findTaxonByName tree1 (body_scientificName body) (Some (string_of_int taxonId)) = None"
      by simp
    then have "fst (modifyTaxonNames x' (string_of_int taxonId) tree1 body) = True"
      by (simp add: modifyTaxonNames_valid)
    from putTaxon_valid_rename[OF found _ tree inc' this] a own
    show "\<exists>db'. putTaxon d newRevisionId taxonId user body db = (200, Some newRevisionId, db')
              \<and> Revision_findByPk db' newRevisionId \<noteq> None"
      by blast
  }
qed

lemma taxaDb_found:
  "findRevisionForKey ''r1'' ''k1'' taxaDb = Inr (sampleRevision, Some sampleKey)"
  by (simp add: findRevisionForKey_def Revisions_findOne_def Revision_findByPk_def
      Key_findByPk_def taxaDb_def sampleRevision_def sampleKey_def)

lemma sampleTaxa_nodes:
  "allNodes sampleTaxa =
     [taxonNode ''1'' ''Aves''
        (Some [taxonNode ''2'' ''Passeriformes'' (Some [taxonNode ''3'' ''Corvidae'' None]),
               taxonNode ''4'' ''Anseriformes'' None]),
      taxonNode ''2'' ''Passeriformes'' (Some [taxonNode ''3'' ''Corvidae'' None]),
      taxonNode ''3'' ''Corvidae'' None,
      taxonNode ''4'' ''Anseriformes'' None,
      taxonNode ''5'' ''Mammalia'' None]"
  by (simp add: sampleTaxa_def taxonNode_def)

lemma sampleTaxa_unique: "uniqueNames sampleTaxa"
  by (simp add: uniqueNames_def sampleTaxa_nodes) (simp add: taxonNode_def upperName_def toUpperCase_def)

theorem taxon_names_stay_unique_witness:
  "postTaxon 1 6 ''r2'' ''u1'' (renameBody ''aves'') taxaDb = (409, None, taxaDb)
   \<and> putTaxon 1 ''r2'' 3 ''u1'' (renameBody ''AVES'') taxaDb = (409, None, taxaDb)
   \<and> fst (putTaxon 1 ''r2'' 3 ''u1'' (renameBody ''Corvidae'') taxaDb) = 200"
proof -
  have found: "findRevisionForKey (body_revisionId (renameBody name)) (body_keyId (renameBody name))
      taxaDb = Inr (sampleRevision, Some sampleKey)" for name
    by (simp add: renameBody_def taxaDb_found)
  have tree: "content_taxa (rev_content sampleRevision) = Some sampleTaxa"
    by (simp add: sampleRevision_def)
  have row: "Taxon_findByPk taxaDb 3 = Some \<lparr>taxonRow_id = 3, taxonRow_keyId = ''k1''\<rparr>"
    by (simp add: Taxon_findByPk_def taxaDb_def)
  have three: "string_of_int 3 = ''3''"
    by (simp add: string_of_int_def string_of_nat.simps)
  have byId: "findTaxonById sampleTaxa (string_of_int 3)
      = Some ([0, 0, 0], taxonNode ''3'' ''Corvidae'' None)"
    unfolding three by (simp add: findTaxonById_def sampleTaxa_def taxonNode_def)
  have aves: "\<exists>n \<in> set (allNodes sampleTaxa). upperName n = toUpperCase ''aves''"
    by (simp add: sampleTaxa_nodes) (simp add: taxonNode_def upperName_def toUpperCase_def)
  have AVES: "\<exists>n \<in> set (allNodes sampleTaxa).
      upperName n = toUpperCase ''AVES'' \<and> taxon_id (props n) \<noteq> string_of_int 3"
    unfolding three
    by (simp add: sampleTaxa_nodes) (simp add: taxonNode_def upperName_def toUpperCase_def)
  have fresh: "''r2'' \<notin> rev_id ` set (revisionTable taxaDb)"
    by (simp add: taxaDb_def sampleRevision_def)
  from taxon_names_stay_unique [OF found tree, of "''aves''" 1 6 "''r2''" "''u1''" 3] aves
  have post: "postTaxon 1 6 ''r2'' ''u1'' (renameBody ''aves'') taxaDb = (409, None, taxaDb)"
    by (simp add: renameBody_def)
  from taxon_names_stay_unique [OF found tree, of "''AVES''" 1 6 "''r2''" "''u1''" 3]
    sampleTaxa_unique row byId AVES
  have put: "putTaxon 1 ''r2'' 3 ''u1'' (renameBody ''AVES'') taxaDb = (409, None, taxaDb)"
    by (simp add: renameBody_def)
  from taxon_names_stay_unique [OF found tree, of "''Corvidae''" 1 6 "''r2''" "''u1''" 3]
    sampleTaxa_unique row byId fresh
  have "fst (putTaxon 1 ''r2'' 3 ''u1'' (renameBody ''Corvidae'') taxaDb) = 200"
    by (auto simp: renameBody_def taxonNode_def)
  with post put show ?thesis by simp
qed

text \<open>
  C6 as stated, for every tree, fails where two nodes have the same name up to case: the
  search returns the last match, and a last match with the ignored id hides the other
  holder of the name. Renaming taxon 2 (foo) to FOO, which taxon 1 (Foo) holds, answers 200;
  renaming taxon 1 to its own name Foo answers 409.
\<close>

theorem rename_with_duplicate_names_counterexample:
  "taxonNode ''1'' ''Foo'' None \<in> set (allNodes duplicateTaxa)
   \<and> upperName (taxonNode ''1'' ''Foo'' None) = toUpperCase ''FOO''
   \<and> taxon_id (props (taxonNode ''1'' ''Foo'' None)) \<noteq> string_of_int 2
   \<and> fst (putTaxon 1 ''r2'' 2 ''u1'' (renameBody ''FOO'') duplicateDb) = 200
   \<and> map_option fst (findTaxonById duplicateTaxa (string_of_int 1)) = Some [0]
   \<and> scientificName (props (duplicateTaxa ! 0)) = ''Foo''
   \<and> fst (putTaxon 1 ''r2'' 1 ''u1'' (renameBody ''Foo'') duplicateDb) = 409"
  by code_simp

theorem postTaxon_unknown_parent_not_inserted_witness:
  "fst (postTaxon 1 6 ''r2'' ''u1'' (moveBody ''Felidae'' (JStr ''0'')) taxaDb) = 200
   \<and> fst (snd (postTaxon 1 6 ''r2'' ''u1'' (moveBody ''Felidae'' (JStr ''0'')) taxaDb))
       = Some (''r2'', ''6'')
   \<and> taxaOfRevision ''r2'' (postTaxon 1 6 ''r2'' ''u1'' (moveBody ''Felidae'' (JStr ''0'')) taxaDb)
       = Some sampleTaxa"
proof -
  let ?b = "moveBody ''Felidae'' (JStr ''0'')"
  have found: "findRevisionForKey (body_revisionId ?b) (body_keyId ?b) taxaDb
      = Inr (sampleRevision, Some sampleKey)"
    by (simp add: moveBody_def renameBody_def taxaDb_found)
  have tree: "sampleTaxa = (case content_taxa (rev_content sampleRevision) of
      Some t \<Rightarrow> t | None \<Rightarrow> [])"
    by (simp add: sampleRevision_def)
  have newName: "\<forall>t \<in> set (allNodes sampleTaxa). upperName t \<noteq> toUpperCase (body_scientificName ?b)"
    by (simp add: sampleTaxa_nodes moveBody_def renameBody_def)
      (simp add: taxonNode_def upperName_def toUpperCase_def)
  have parent: "body_parentId ?b = Some (JStr ''0'')" "truthyVal (JStr ''0'')"
    by (simp_all add: moveBody_def renameBody_def)
  have unknown: "\<forall>t \<in> set (allNodes sampleTaxa). taxon_id (props t) \<noteq> toString (JStr ''0'')"
    by (simp add: sampleTaxa_nodes) (simp add: taxonNode_def)
  have fresh: "6 \<notin> taxonRow_id ` set (taxonTable taxaDb)"
    "''r2'' \<notin> rev_id ` set (revisionTable taxaDb)"
    by (simp_all add: taxaDb_def sampleRevision_def)
  have six: "string_of_int 6 = ''6''"
    by (simp add: string_of_int_def string_of_nat.simps)
  from postTaxon_unknown_parent_not_inserted [OF found tree newName parent unknown fresh, of 1 "''u1''"]
  show ?thesis
    by (auto simp: taxaOfRevision_def six)
qed

section \<open>Moving a taxon\<close>

text \<open>
  C4 (a move takes the taxon out of the children of its old parent and puts it once
  under the new parent, or at the top level, at any depth) fails on the code for a taxon
  at depth three. The request moves Corvidae (3), a child of Passeriformes (2), which is
  a child of Aves (1), under Mammalia (5). The search with
  \<^verbatim>\<open>include\<close> writes the id of Aves, not of Passeriformes, as \<^verbatim>\<open>parentId\<close>; the
  splice then finds no child 3 of Aves and removes its last child, Anseriformes (4). In
  the new revision Corvidae is still a child of Passeriformes, is a child of Mammalia as
  well, and Anseriformes is gone. The request to move Corvidae to the top level
  (\<^verbatim>\<open>parentId\<close> 0) likewise leaves it a child of Passeriformes. The request to move
  Passeriformes, at depth two, under Mammalia does what the claim says.
\<close>

theorem reparent_depth_three_stays_under_old_parent:
  "map_option fst (findTaxonById sampleTaxa ''3'') = Some [0, 0, 0]
   \<and> map_option (\<lambda>(p, t). taxon_parentId (props t)) (snd (findTaxonById_include sampleTaxa ''3''))
       = Some (Some ''1'')
   \<and> fst (putTaxon 1 ''r2'' 3 ''u1'' (moveBody ''Corvidae'' (JNum 5)) taxaDb) = 200
   \<and> taxaOfRevision ''r2'' (putTaxon 1 ''r2'' 3 ''u1'' (moveBody ''Corvidae'' (JNum 5)) taxaDb)
       = Some movedUnderMammalia
   \<and> fst (putTaxon 1 ''r2'' 3 ''u1'' (moveBody ''Corvidae'' (JNum 0)) taxaDb) = 200
   \<and> taxaOfRevision ''r2'' (putTaxon 1 ''r2'' 3 ''u1'' (moveBody ''Corvidae'' (JNum 0)) taxaDb)
       = Some movedToRoot
   \<and> taxaOfRevision ''r2'' (putTaxon 1 ''r2'' 2 ''u1'' (moveBody ''Passeriformes'' (JNum 5)) taxaDb)
       = Some movedPasseriformes"
  by code_simp

end
